theory Spec2Isabelle
  imports Main "HOL-Library.Word"
begin

section \<open>JavaScript values used by ScannerStore\<close>

text \<open>
  The store (\<^verbatim>\<open>ScannerStore\<close>, a container of the \<^verbatim>\<open>unstated\<close> library) is
  embedded with explicit state passing. JavaScript numbers that hold frame indices and
  counts are integers here (the decoder reads them from 16-bit fields of the frame header,
  so they are not negative); bytes of a \<^verbatim>\<open>Uint8Array\<close> are 8-bit words; an
  exception is a value of \<open>error\<close>.

  \<^verbatim>\<open>setState\<close> merges the given fields into the state. The methods below read the
  state before their first write and their writes go to different fields, so the writes
  are applied in the order of the calls.
\<close>

type_synonym u8 = "8 word"

datatype error = TypeError | Error string

text \<open>
  Values that meet in a strict comparison \<^verbatim>\<open>===\<close>: \<^verbatim>\<open>undefined\<close>, a number, or a
  reference to an object. Operands of different types are never strictly equal, and two
  object references are equal only when they are the same object.
\<close>

datatype js_value = JSUndefined | JSNumber int | JSObject nat

fun strict_equals :: "js_value \<Rightarrow> js_value \<Rightarrow> bool" where
  "strict_equals JSUndefined JSUndefined = True"
| "strict_equals (JSNumber a) (JSNumber b) = (a = b)"
| "strict_equals (JSObject r) (JSObject r') = (r = r')"
| "strict_equals _ _ = False"

text \<open>Truthiness of \<^verbatim>\<open>latestFrame\<close>, which is \<^verbatim>\<open>null\<close> or a number: \<^verbatim>\<open>null\<close> and \<^verbatim>\<open>0\<close> are falsy.\<close>

fun truthy :: "int option \<Rightarrow> bool" where
  "truthy None = False"
| "truthy (Some n) = (n \<noteq> 0)"

text \<open>A \<^verbatim>\<open>null\<close> operand of an arithmetic operator converts to \<^verbatim>\<open>0\<close>.\<close>

fun toNumber :: "int option \<Rightarrow> int" where
  "toNumber None = 0"
| "toNumber (Some n) = n"

subsection \<open>The remainder operator and \<^verbatim>\<open>mod\<close> of util/numbers\<close>

text \<open>JavaScript's \<^verbatim>\<open>%\<close> on integers truncates: the result has the sign of the dividend.\<close>

definition js_rem :: "int \<Rightarrow> int \<Rightarrow> int" where
  "js_rem n m = sgn n * (\<bar>n\<bar> mod \<bar>m\<bar>)"

text \<open>
  Modelled from the spec: \<^verbatim>\<open>mod\<close> is imported from util/numbers, which is not among the
  sources. The spec uses it as the mathematical modulus (\<open>mod totalFrameCount\<close>, a value in
  \<open>[0, totalFrameCount)\<close>), which in JavaScript is written \<^verbatim>\<open>((n % m) + m) % m\<close>.
\<close>

definition mod_fn :: "int \<Rightarrow> int \<Rightarrow> int" where
  "mod_fn n m = js_rem (js_rem n m + m) m"

subsection \<open>Hexadecimal text\<close>

definition hexDigitValue :: "char \<Rightarrow> nat option" where
  "hexDigitValue c =
     (let n = of_char c :: nat in
      if 48 \<le> n \<and> n \<le> 57 then Some (n - 48)
      else if 97 \<le> n \<and> n \<le> 102 then Some (n - 87)
      else if 65 \<le> n \<and> n \<le> 70 then Some (n - 55)
      else None)"

definition isWhiteSpace :: "char \<Rightarrow> bool" where
  "isWhiteSpace c = (of_char c \<in> {9, 10, 11, 12, 13, 32, 160 :: nat})"

text \<open>The longest prefix of hexadecimal digits, read as a number; \<open>None\<close> when it is empty.\<close>

fun hexPrefixValue :: "nat option \<Rightarrow> string \<Rightarrow> nat option" where
  "hexPrefixValue acc [] = acc"
| "hexPrefixValue acc (c # cs) =
     (case hexDigitValue c of
        None \<Rightarrow> acc
      | Some d \<Rightarrow> hexPrefixValue (Some ((case acc of None \<Rightarrow> 0 | Some a \<Rightarrow> 16 * a) + d)) cs)"

text \<open>
  \<^verbatim>\<open>parseInt(s, 16)\<close>: leading white space is skipped, a sign is read, a prefix
  \<^verbatim>\<open>0x\<close> is dropped, and the digits up to the first character that is none are the
  value. \<open>None\<close> is \<^verbatim>\<open>NaN\<close>.
\<close>

definition parseInt16 :: "string \<Rightarrow> int option" where
  "parseInt16 s =
     (let s1 = dropWhile isWhiteSpace s;
          neg = (s1 \<noteq> [] \<and> hd s1 = CHR ''-'');
          s2 = (if s1 \<noteq> [] \<and> (hd s1 = CHR ''-'' \<or> hd s1 = CHR ''+'') then tl s1 else s1);
          s3 = (if take 2 s2 = ''0x'' \<or> take 2 s2 = ''0X'' then drop 2 s2 else s2)
      in case hexPrefixValue None s3 of
           None \<Rightarrow> None
         | Some v \<Rightarrow> Some (if neg then - int v else int v))"

text \<open>Storing a number into a \<^verbatim>\<open>Uint8Array\<close> keeps it modulo 256; \<^verbatim>\<open>NaN\<close> is stored as 0.\<close>

fun toUint8 :: "int option \<Rightarrow> u8" where
  "toUint8 None = 0"
| "toUint8 (Some n) = of_int n"

text \<open>\<^verbatim>\<open>s.substr(start, len)\<close>.\<close>

definition substr :: "string \<Rightarrow> nat \<Rightarrow> nat \<Rightarrow> string" where
  "substr s start len = take len (drop start s)"

text \<open>
  The loop of \<^verbatim>\<open>setPartData\<close> that fills \<^verbatim>\<open>partDataAsBytes\<close>: a typed array of
  \<^verbatim>\<open>partData.length / 2\<close> elements (the integer part of it), element \<open>i\<close> parsed from
  the two characters at \<open>2 * i\<close>.
\<close>

definition partDataAsBytes :: "string \<Rightarrow> u8 list" where
  "partDataAsBytes partData =
     map (\<lambda>i. toUint8 (parseInt16 (substr partData (i * 2) 2))) [0 ..< length partData div 2]"

text \<open>Reading element 0 of a typed array: a number, or \<^verbatim>\<open>undefined\<close> when the array is empty.\<close>

fun index0 :: "u8 list \<Rightarrow> js_value" where
  "index0 [] = JSUndefined"
| "index0 (b # _) = JSNumber (uint b)"

text \<open>
  Modelled from the spec: \<^verbatim>\<open>encodeNumber\<close> is imported from util/decoders, which is not
  among the sources. The spec gives the frame header fields as big-endian 16-bit numbers.
\<close>

definition encodeNumber :: "int \<Rightarrow> u8 list" where
  "encodeNumber v = [of_int (v div 256), of_int v]"

text \<open>\<^verbatim>\<open>u8aToHex(bytes, -1, false)\<close> of @polkadot/util: two lower-case digits a byte, no prefix.\<close>

definition hexDigit :: "nat \<Rightarrow> char" where
  "hexDigit n = (if n < 10 then char_of (48 + n) else char_of (87 + n))"

definition u8aToHexBare :: "u8 list \<Rightarrow> string" where
  "u8aToHexBare bytes = concat (map (\<lambda>b. [hexDigit (unat b div 16), hexDigit (unat b mod 16)]) bytes)"

text \<open>\<^verbatim>\<open>u8aToHex(bytes)\<close>, with the prefix.\<close>

definition u8aToHex :: "u8 list \<Rightarrow> string" where
  "u8aToHex bytes = ''0x'' @ u8aToHexBare bytes"

text \<open>
  \<^verbatim>\<open>hexToU8a\<close> of @polkadot/util on a prefixed string: it asserts that the text is
  hexadecimal (a prefix \<^verbatim>\<open>0x\<close> followed by an even number of digits) and reads it a
  byte at a time.
\<close>

fun hexPairs :: "string \<Rightarrow> (error + u8 list)" where
  "hexPairs [] = Inr []"
| "hexPairs [c] = Inl (Error ''Expected hex value to convert'')"
| "hexPairs (c # d # cs) =
     (case (hexDigitValue c, hexDigitValue d) of
        (Some h, Some l) \<Rightarrow>
          (case hexPairs cs of Inl e \<Rightarrow> Inl e | Inr bs \<Rightarrow> Inr (of_nat (16 * h + l) # bs))
      | _ \<Rightarrow> Inl (Error ''Expected hex value to convert''))"

definition hexToU8a :: "string \<Rightarrow> (error + u8 list)" where
  "hexToU8a v =
     (if v = [] then Inr []
      else if take 2 v = ''0x'' then hexPairs (drop 2 v)
      else Inl (Error ''Expected hex value to convert''))"

text \<open>
  \<^verbatim>\<open>hexStripPrefix\<close> of @polkadot/util on a string: the empty string stays, a prefix
  \<^verbatim>\<open>0x\<close> is dropped, text made of digits only is returned as it is, and anything else
  throws.
\<close>

definition hexStripPrefix :: "string \<Rightarrow> (error + string)" where
  "hexStripPrefix v =
     (if v = [] then Inr []
      else if take 2 v = ''0x'' \<and> (\<forall>c \<in> set (drop 2 v). hexDigitValue c \<noteq> None) then Inr (drop 2 v)
      else if \<forall>c \<in> set v. hexDigitValue c \<noteq> None then Inr v
      else Inl (Error ''Invalid hex passed to hexStripPrefix''))"

section \<open>Data model\<close>

text \<open>
  \<^verbatim>\<open>GenericExtrinsicPayload\<close> of @polkadot/types is represented by the bytes its encoder
  \<^verbatim>\<open>toU8a(true)\<close> gives: the canonical body without the length prefix.
\<close>

datatype extrinsic_payload = GenericExtrinsicPayload (toU8a_bare: "u8 list")

text \<open>
  What \<^verbatim>\<open>dataToSign\<close> holds at run time: a structured payload, a byte array or a string.
\<close>

datatype data_to_sign = Payload extrinsic_payload | U8a "u8 list" | Text string

record account =
  address :: string
  networkKey :: string
  encryptedSeed :: string
  pinKey :: string
  path :: string

text \<open>
  The object \<^verbatim>\<open>constructDataFromBytes\<close> resolves to: a fragment of a multipart payload
  (\<^verbatim>\<open>isMultipart\<close> set, with \<^verbatim>\<open>currentFrame\<close>, \<^verbatim>\<open>frameCount\<close> and \<^verbatim>\<open>partData\<close>), or
  a request with its \<^verbatim>\<open>data\<close> object.
\<close>

record sign_request =
  action :: string
  data_account :: string
  data_crypto :: "string option"
  data_data :: data_to_sign
  data_rlp :: "string option"
  req_isHash :: bool
  oversized :: bool
  preHash :: "extrinsic_payload option"

datatype parsed_data =
    MultipartFrame (currentFrame: int) (frameCount: int) (partData: string)
  | SignRequest sign_request

datatype request_type = Transaction | Message

record scanner_state =
  busy :: bool
  completedFramesCount :: int
  dataToSign :: data_to_sign
  isHash :: bool
  isOversized :: bool
  latestFrame :: "int option"
  message :: "data_to_sign option"
  missedFrames :: "int list"
  multipartComplete :: bool
  multipartData :: "(int \<times> u8 list) list"
  prehash :: "extrinsic_payload option"
  recipient :: "account option"
  scanErrorMsg :: string
  sender :: "account option"
  signedData :: string
  totalFrameCount :: int
  tx :: "data_to_sign option"
  txRequest :: "sign_request option"
  reqType :: "request_type option"
  unsignedData :: "parsed_data option"

definition DEFAULT_STATE :: scanner_state where
  "DEFAULT_STATE =
     \<lparr> busy = False, completedFramesCount = 0, dataToSign = Text [], isHash = False,
       isOversized = False, latestFrame = None, message = None, missedFrames = [],
       multipartComplete = False, multipartData = [], prehash = None, recipient = None,
       scanErrorMsg = [], sender = None, signedData = [], totalFrameCount = 0,
       tx = None, txRequest = None, reqType = None, unsignedData = None \<rparr>"

definition MULTIPART :: "u8 list" where
  "MULTIPART = [0]"

definition SIG_TYPE_SR25519 :: "u8 list" where
  "SIG_TYPE_SR25519 = [1]"


section \<open>The network table (constants)\<close>

datatype network_protocol = ETHEREUM | SUBSTRATE | UNKNOWN

text \<open>
  Of the parameters of a network, the title, the address prefix and the protocol are
  kept; colours, logos, units and path identifiers play no part in scanning or signing.
\<close>

record network_params =
  title :: string
  prefix :: "nat option"
  protocol :: network_protocol

definition KUSAMA :: string where
  "KUSAMA = ''0xb0a8d493285c2df73290dfb7e61f870f17b41801197a149ca93654499ea3dafe''"

definition KUSAMA_CC2 :: string where
  "KUSAMA_CC2 = ''0xe3777fa922cafbff200cadeaea1a76bd7898ad5b89f7848999058b50e715f636''"

definition KUSAMA_DEV :: string where
  "KUSAMA_DEV = ''0x5e9679182f658e148f33d3f760f11179977398bb3da8d1f0bf7b267fe6b3ebb0''"

definition CENTRIFUGE :: string where
  "CENTRIFUGE = ''0x0000000000000000000000000000000000000000000000000000000000000001''"

definition CENTRIFUGE_AMBER :: string where
  "CENTRIFUGE_AMBER = ''0x14ad1761c377ea2aac9a1f7edc648c8b7b64f2f7a1667330f4b5eeec65ab8a3f''"

definition SUBSTRATE_DEV :: string where
  "SUBSTRATE_DEV = ''0x0d667fd278ec412cd9fccdb066f09ed5b4cfd9c9afa9eb747213acb02b1e70bc''"

text \<open>The base tables, as (key, (title, prefix)) in the order of their declaration.\<close>

definition substrateNetworkBase :: "(string \<times> string \<times> nat option) list" where
  "substrateNetworkBase =
     [(KUSAMA, ''Kusama'', Some 2),
      (KUSAMA_CC2, ''Kusama'', Some 2),
      (KUSAMA_DEV, ''Kusama Development'', Some 2),
      (SUBSTRATE_DEV, ''Substrate Development'', Some 42),
      (CENTRIFUGE_AMBER, ''Centrifuge Amber Testnet'', Some 42),
      (CENTRIFUGE, ''Centrifuge Mainnet'', Some 36)]"

definition ethereumNetworkBase :: "(string \<times> string \<times> nat option) list" where
  "ethereumNetworkBase =
     [(''1'', ''Ethereum'', None),
      (''61'', ''Ethereum Classic'', None),
      (''3'', ''Ropsten Testnet'', None),
      (''5'', ''Goerli Testnet'', None),
      (''42'', ''Kovan Testnet'', None)]"

definition unknownNetworkBase :: "(string \<times> network_params) list" where
  "unknownNetworkBase =
     [(''unknown'', \<lparr> title = ''Custom network'', prefix = Some 2, protocol = UNKNOWN \<rparr>)]"

text \<open>\<^verbatim>\<open>setDefault\<close> adds the protocol of the family to every entry of a base table.\<close>

definition setDefault ::
  "(string \<times> string \<times> nat option) list \<Rightarrow> network_protocol \<Rightarrow> (string \<times> network_params) list" where
  "setDefault networkBase defaultProtocol =
     map (\<lambda>(networkKey, t, p). (networkKey, \<lparr> title = t, prefix = p, protocol = defaultProtocol \<rparr>))
       networkBase"

definition ETHEREUM_NETWORK_LIST :: "(string \<times> network_params) list" where
  "ETHEREUM_NETWORK_LIST = setDefault ethereumNetworkBase ETHEREUM"

definition SUBSTRATE_NETWORK_LIST :: "(string \<times> network_params) list" where
  "SUBSTRATE_NETWORK_LIST = setDefault substrateNetworkBase SUBSTRATE"

definition NETWORK_LIST :: "(string \<times> network_params) list" where
  "NETWORK_LIST = SUBSTRATE_NETWORK_LIST @ ETHEREUM_NETWORK_LIST @ unknownNetworkBase"

text \<open>
  \<^verbatim>\<open>Object.keys\<close> of a table whose keys are not array indices lists them in the order
  of insertion; \<open>table[key]\<close> is a lookup.
\<close>

definition Object_keys :: "(string \<times> 'v) list \<Rightarrow> string list" where
  "Object_keys table = map fst table"

section \<open>External collaborators of the scanner\<close>

text \<open>
  The account store is passed to the store's methods as an object; only its lookup by
  address is used while parsing. A lookup that finds nothing gives a falsy value.
\<close>

record accounts_store =
  getAccountByAddress :: "string \<Rightarrow> account option"

text \<open>
  \<^verbatim>\<open>constructDataFromBytes\<close> (util/decoders) and the address codec of
  @polkadot/util-crypto are not among the sources: they are parameters. The decoder and
  \<^verbatim>\<open>decodeAddress\<close> may throw.
\<close>

record scanner_env =
  constructDataFromBytes :: "u8 list \<Rightarrow> bool \<Rightarrow> error + parsed_data"
  decodeAddress :: "string \<Rightarrow> error + u8 list"
  encodeAddress :: "u8 list \<Rightarrow> nat option \<Rightarrow> string"

section \<open>ScannerStore: parsing and multipart assembly\<close>

definition setErrorMsg :: "string \<Rightarrow> scanner_state \<Rightarrow> scanner_state" where
  "setErrorMsg msg s = s\<lparr>scanErrorMsg := msg\<rparr>"

definition setPrehashPayload :: "extrinsic_payload option \<Rightarrow> scanner_state \<Rightarrow> scanner_state" where
  "setPrehashPayload p s = s\<lparr>prehash := p\<rparr>"

text \<open>
  The loop of \<^verbatim>\<open>setParsedData\<close> over the keys of \<^verbatim>\<open>SUBSTRATE_NETWORK_LIST\<close>: each
  round decodes the address, encodes the key with the prefix of the network and looks the
  result up; the first account found ends the loop.
\<close>

fun networksLoop ::
  "scanner_env \<Rightarrow> accounts_store \<Rightarrow> string \<Rightarrow> string list \<Rightarrow> error + account option" where
  "networksLoop env accountsStore addr [] = Inr None"
| "networksLoop env accountsStore addr (key # networks) =
     (case map_of SUBSTRATE_NETWORK_LIST key of
        None \<Rightarrow> Inl TypeError
      | Some params \<Rightarrow>
          (case decodeAddress env addr of
             Inl e \<Rightarrow> Inl e
           | Inr publicKey \<Rightarrow>
               (case getAccountByAddress accountsStore (encodeAddress env publicKey (prefix params)) of
                  Some acc \<Rightarrow> Inr (Some acc)
                | None \<Rightarrow> networksLoop env accountsStore addr networks)))"

text \<open>
  \<^verbatim>\<open>setParsedData\<close> and \<^verbatim>\<open>setPartData\<close> call each other: a fragment is passed to
  \<^verbatim>\<open>setPartData\<close>, which passes the assembled payload back with
  \<^verbatim>\<open>multipartComplete = true\<close>, and that call never reaches \<^verbatim>\<open>setPartData\<close> again.
  The body of \<^verbatim>\<open>setParsedData\<close> is therefore written once, over the handler of
  fragments. Neither call is awaited, so an exception in the callee is not seen by the
  caller; the callee's writes to the state are.
\<close>

definition setParsedData_body ::
  "(int \<Rightarrow> int \<Rightarrow> string \<Rightarrow> accounts_store \<Rightarrow> scanner_state \<Rightarrow> scanner_state) \<Rightarrow>
   scanner_env \<Rightarrow> u8 list \<Rightarrow> accounts_store \<Rightarrow> bool \<Rightarrow> scanner_state \<Rightarrow> error + scanner_state" where
  "setParsedData_body partHandler env strippedData accountsStore multipartCompleteArg s =
     (case constructDataFromBytes env strippedData multipartCompleteArg of
        Inl e \<Rightarrow> Inl e
      | Inr parsedData \<Rightarrow>
          (case parsedData of
             MultipartFrame frame frameCnt part \<Rightarrow>
               if \<not> multipartCompleteArg then Inr (partHandler frame frameCnt part accountsStore s)
               else Inl TypeError
           | SignRequest req \<Rightarrow>
               (case getAccountByAddress accountsStore (data_account req) of
                  Some _ \<Rightarrow>
                    Inr (setPrehashPayload (preHash req) (s\<lparr>unsignedData := Some parsedData\<rparr>))
                | None \<Rightarrow>
                    (case networksLoop env accountsStore (data_account req)
                            (Object_keys SUBSTRATE_NETWORK_LIST) of
                       Inl e \<Rightarrow> Inl e
                     | Inr (Some acc) \<Rightarrow>
                         Inr (s\<lparr>unsignedData :=
                                  Some (SignRequest (req\<lparr>data_account := address acc\<rparr>))\<rparr>)
                     | Inr None \<Rightarrow>
                         Inr (setPrehashPayload (preHash req)
                                (setErrorMsg (''No private key found for '' @ data_account req @
                                              '' in your signer key storage.'') s))))))"

text \<open>The call \<^verbatim>\<open>setParsedData(blob, accountsStore, true)\<close> made on completion.\<close>

definition setParsedData_complete ::
  "scanner_env \<Rightarrow> u8 list \<Rightarrow> accounts_store \<Rightarrow> scanner_state \<Rightarrow> error + scanner_state" where
  "setParsedData_complete env strippedData accountsStore s =
     setParsedData_body (\<lambda>_ _ _ _ s'. s') env strippedData accountsStore True s"

text \<open>
  \<^verbatim>\<open>multipartData\<close> is an object keyed by frame index. Its keys are array indices, which
  \<^verbatim>\<open>Object.keys\<close> and \<^verbatim>\<open>Object.values\<close> list in ascending order: the object is an
  association list kept in that order, and the assignment \<^verbatim>\<open>obj[k] = v\<close> is \<open>obj_set\<close>.
\<close>

fun obj_set :: "int \<Rightarrow> 'v \<Rightarrow> (int \<times> 'v) list \<Rightarrow> (int \<times> 'v) list" where
  "obj_set k v [] = [(k, v)]"
| "obj_set k v ((k', v') # kvs) =
     (if k = k' then (k, v) # kvs
      else if k < k' then (k, v) # (k', v') # kvs
      else (k', v') # obj_set k v kvs)"

definition Object_values :: "(int \<times> 'v) list \<Rightarrow> 'v list" where
  "Object_values obj = map snd obj"

text \<open>
  \<^verbatim>\<open>values.reduce((acc, part) => [...acc, ...part])\<close>: without an initial value the
  first element starts the accumulator, and an empty array throws.
\<close>

definition reduce_spread :: "u8 list list \<Rightarrow> error + u8 list" where
  "reduce_spread parts =
     (case parts of
        [] \<Rightarrow> Inl TypeError
      | p # ps \<Rightarrow> Inr (foldl (\<lambda>acc part. acc @ part) p ps))"

text \<open>\<^verbatim>\<open>Array.from(new Set(xs))\<close>: the elements of \<open>xs\<close> in the order of their first occurrence.\<close>

definition Array_from_Set :: "int list \<Rightarrow> int list" where
  "Array_from_Set xs = foldl (\<lambda>acc x. if x \<in> set acc then acc else acc @ [x]) [] xs"

text \<open>
  \<^verbatim>\<open>setPartData(frame, frameCount, partData, accountsStore)\<close>. The fields of the state are
  read once, on entry; every test below uses those values, also after \<^verbatim>\<open>totalFrameCount\<close>
  has been written. The result is the exception thrown, if any, and the state.

  The test on the first byte compares \<^verbatim>\<open>partDataAsBytes[0]\<close> with
  \<^verbatim>\<open>new Uint8Array([0x00])\<close> and with \<^verbatim>\<open>new Uint8Array([0x7b])\<close>: two objects
  created by the test itself, at the references 0 and 1 here.

  \<^verbatim>\<open>missedFrames.splice\<close> changes the array object read on entry. The state shows the
  removal only if it still holds that object, that is, if the branch above has not stored
  a new array.
\<close>

definition setPartData ::
  "scanner_env \<Rightarrow> int \<Rightarrow> int \<Rightarrow> string \<Rightarrow> accounts_store \<Rightarrow> scanner_state \<Rightarrow>
   error option \<times> scanner_state" where
  "setPartData env frame frameCnt part accountsStore s =
     (let latest = latestFrame s;
          missed = missedFrames s;
          complete = multipartComplete s;
          mdata = multipartData s;
          total = totalFrameCount s;
          s1 = (if total = 0 then s\<lparr>totalFrameCount := frameCnt\<rparr> else s);
          bytes = partDataAsBytes part
      in
        if strict_equals (index0 bytes) (JSObject 0) \<or> strict_equals (index0 bytes) (JSObject 1)
        then (Some (Error ''Error decoding invalid part data.''), s1)
        else
          let completedCount = int (length mdata) in
          if completedCount > 0 \<and> total > 0 \<and> completedCount = total \<and> \<not> complete then
            (let s2 = s1\<lparr>multipartComplete := True\<rparr> in
             case reduce_spread (Object_values mdata) of
               Inl e \<Rightarrow> (Some e, s2)
             | Inr parts \<Rightarrow>
                 let frameInfo = MULTIPART @ encodeNumber total @ encodeNumber frame;
                     concatMultipartData = frameInfo @ parts;
                     s3 = (case setParsedData_complete env concatMultipartData accountsStore s2 of
                             Inl _ \<Rightarrow> s2
                           | Inr s' \<Rightarrow> s')
                 in (None, s3\<lparr>completedFramesCount := completedCount\<rparr>))
          else if completedCount < total then
            (let nextDataState = obj_set frame bytes mdata;
                 missedFramesRange = mod_fn (frame - toNumber latest) total - 1;
                 skipped = (truthy latest \<and> missedFramesRange \<ge> 1 \<and> frame \<notin> set missed);
                 updatedMissedFrames =
                   map (\<lambda>i. mod_fn (int i + toNumber latest) total) [0 ..< nat missedFramesRange];
                 s2 = (if skipped
                       then s1\<lparr>missedFrames := Array_from_Set (missed @ updatedMissedFrames)\<rparr>
                       else s1);
                 s3 = (if frame - 1 \<in> set missed \<and> \<not> skipped
                       then s2\<lparr>missedFrames := remove1 (frame - 1) missed\<rparr>
                       else s2);
                 s4 = s3\<lparr>latestFrame := Some frame, multipartData := nextDataState\<rparr>
             in (None, s4\<lparr>completedFramesCount := completedCount\<rparr>))
          else (None, s1\<lparr>completedFramesCount := completedCount\<rparr>))"

definition setParsedData ::
  "scanner_env \<Rightarrow> u8 list \<Rightarrow> accounts_store \<Rightarrow> bool \<Rightarrow> scanner_state \<Rightarrow> error + scanner_state" where
  "setParsedData env strippedData accountsStore multipartCompleteArg s =
     setParsedData_body
       (\<lambda>frame frameCnt part store s'. snd (setPartData env frame frameCnt part store s'))
       env strippedData accountsStore multipartCompleteArg s"


section \<open>ScannerStore: signing\<close>

text \<open>
  Modelled from the spec: \<^verbatim>\<open>isAscii\<close> (util/strings) and \<^verbatim>\<open>asciiToHex\<close>
  (util/decoders) are not among the sources. The spec has text that is ASCII hex-encoded
  byte by byte.
\<close>

definition isAscii :: "string \<Rightarrow> bool" where
  "isAscii txt = (\<forall>c \<in> set txt. (of_char c :: nat) < 128)"

definition asciiToHex :: "string \<Rightarrow> string" where
  "asciiToHex txt = concat (map (\<lambda>c. [hexDigit (of_char c div 16), hexDigit (of_char c mod 16)]) txt)"

text \<open>
  \<^verbatim>\<open>hexStripPrefix\<close> applied to \<^verbatim>\<open>dataToSign\<close> itself, which need not be a string:
  the library then tests the string form of the value against its pattern of digits and
  returns the value unchanged when it matches. The string form of a byte array is its
  elements in decimal, joined by commas: it matches for an array of one element only. An
  object never matches.
\<close>

fun hexStripPrefixValue :: "data_to_sign \<Rightarrow> error + data_to_sign" where
  "hexStripPrefixValue (Text v) = map_sum id Text (hexStripPrefix v)"
| "hexStripPrefixValue (U8a bytes) =
     (if length bytes = 1 then Inr (U8a bytes)
      else Inl (Error ''Invalid hex passed to hexStripPrefix''))"
| "hexStripPrefixValue (Payload p) = Inl (Error ''Invalid hex passed to hexStripPrefix'')"

text \<open>
  The chain of tests that both signing methods run on \<^verbatim>\<open>dataToSign\<close> for a network
  that is not Ethereum. There is no final \<^verbatim>\<open>else\<close>: when no test holds, \<^verbatim>\<open>signable\<close>
  stays \<^verbatim>\<open>undefined\<close> (\<open>None\<close>).
\<close>

definition substrateSignable :: "data_to_sign \<Rightarrow> bool \<Rightarrow> error + data_to_sign option" where
  "substrateSignable d hashFlag =
     (case d of
        Payload p \<Rightarrow> Inr (Some (Text (u8aToHexBare (toU8a_bare p))))
      | _ \<Rightarrow>
        if hashFlag then map_sum id Some (hexStripPrefixValue d)
        else (case d of
                U8a bytes \<Rightarrow> map_sum id (Some \<circ> Text) (hexStripPrefix (u8aToHex bytes))
              | Text txt \<Rightarrow>
                  if isAscii txt then map_sum id (Some \<circ> Text) (hexStripPrefix (asciiToHex txt))
                  else Inr None
              | Payload p \<Rightarrow> Inr None))"

text \<open>
  The signing capability (util/native) is a parameter. Each operation takes the state of
  the world outside the store and returns the next one, so that how often the store has
  invoked it can be read off; it may reject. \<^verbatim>\<open>APP_ID\<close> and \<^verbatim>\<open>constructSURI\<close> are
  imported from files that are not among the sources.
\<close>

record 'w signing_env =
  APP_ID :: string
  secureEthkeySign ::
    "string \<Rightarrow> string \<Rightarrow> data_to_sign option \<Rightarrow> string \<Rightarrow> 'w \<Rightarrow> (error + string) \<times> 'w"
  secureSubstrateSign ::
    "string \<Rightarrow> string \<Rightarrow> data_to_sign option \<Rightarrow> string \<Rightarrow> bool \<Rightarrow> 'w \<Rightarrow> (error + string) \<times> 'w"
  brainWalletSign :: "string \<Rightarrow> data_to_sign \<Rightarrow> 'w \<Rightarrow> (error + string) \<times> 'w"
  substrateSign :: "string \<Rightarrow> data_to_sign option \<Rightarrow> 'w \<Rightarrow> (error + string) \<times> 'w"
  decryptData :: "string \<Rightarrow> string \<Rightarrow> 'w \<Rightarrow> (error + string) \<times> 'w"
  constructSURI :: "string \<Rightarrow> string \<Rightarrow> string \<Rightarrow> error + string"

definition setBusy :: "scanner_state \<Rightarrow> scanner_state" where
  "setBusy s = s\<lparr>busy := True\<rparr>"

definition setReady :: "scanner_state \<Rightarrow> scanner_state" where
  "setReady s = s\<lparr>busy := False\<rparr>"

text \<open>
  \<^verbatim>\<open>NETWORK_LIST[sender.networkKey].protocol === NetworkProtocols.ETHEREUM\<close>; reading a
  property of \<^verbatim>\<open>null\<close> or \<^verbatim>\<open>undefined\<close> throws.
\<close>

definition senderIsEthereum :: "scanner_state \<Rightarrow> error + (account \<times> bool)" where
  "senderIsEthereum s =
     (case sender s of
        None \<Rightarrow> Inl TypeError
      | Some acc \<Rightarrow>
          (case map_of NETWORK_LIST (networkKey acc) of
             None \<Rightarrow> Inl TypeError
           | Some params \<Rightarrow> Inr (acc, protocol params = ETHEREUM)))"

text \<open>
  The signature of a network that is not Ethereum is tagged:
  \<^verbatim>\<open>u8aToHex(u8aConcat(SIG_TYPE_SR25519, hexToU8a('0x' + signed)), -1, false)\<close>.
\<close>

definition tagSignature :: "string \<Rightarrow> error + string" where
  "tagSignature sigHex =
     (case hexToU8a (''0x'' @ sigHex) of
        Inl e \<Rightarrow> Inl e
      | Inr bytes \<Rightarrow> Inr (u8aToHexBare (SIG_TYPE_SR25519 @ bytes)))"

text \<open>
  \<^verbatim>\<open>signDataBiometric(legacy)\<close>. The result is \<^verbatim>\<open>false\<close> (\<open>Some False\<close>) when the
  \<^verbatim>\<open>try\<close> block catches an exception and \<^verbatim>\<open>undefined\<close> (\<open>None\<close>) otherwise; an
  exception outside the block rejects the call.
\<close>

definition signDataBiometric ::
  "'w signing_env \<Rightarrow> bool \<Rightarrow> scanner_state \<Rightarrow> 'w \<Rightarrow> (error + bool option) \<times> scanner_state \<times> 'w" where
  "signDataBiometric env legacy s w =
     (case senderIsEthereum s of
        Inl e \<Rightarrow> (Inl e, s, w)
      | Inr (acc, isEthereum) \<Rightarrow>
          (case (if isEthereum then Inr (Some (dataToSign s))
                 else substrateSignable (dataToSign s) (isHash s)) of
             Inl e \<Rightarrow> (Inl e, s, w)
           | Inr signable \<Rightarrow>
               (let (res, w') =
                      (if isEthereum
                       then secureEthkeySign env (APP_ID env) (pinKey acc) signable (encryptedSeed acc) w
                       else secureSubstrateSign env (APP_ID env) (pinKey acc) signable
                              (encryptedSeed acc) legacy w)
                in case res of
                     Inl e \<Rightarrow> (Inr (Some False), s, w')
                   | Inr sigHex \<Rightarrow>
                       (case (if \<not> isEthereum then tagSignature sigHex else Inr sigHex) of
                          Inl e \<Rightarrow> (Inr (Some False), s, w')
                        | Inr signedData' \<Rightarrow> (Inr None, s\<lparr>signedData := signedData'\<rparr>, w')))))"

text \<open>\<^verbatim>\<open>signDataWithSuri(suri)\<close>: nothing is caught, every exception rejects the call.\<close>

definition signDataWithSuri ::
  "'w signing_env \<Rightarrow> string \<Rightarrow> scanner_state \<Rightarrow> 'w \<Rightarrow> (error + unit) \<times> scanner_state \<times> 'w" where
  "signDataWithSuri env suri s w =
     (case senderIsEthereum s of
        Inl e \<Rightarrow> (Inl e, s, w)
      | Inr (acc, isEthereum) \<Rightarrow>
          if isEthereum then
            (let (res, w') = brainWalletSign env suri (dataToSign s) w
             in case res of
                  Inl e \<Rightarrow> (Inl e, s, w')
                | Inr sigHex \<Rightarrow> (Inr (), s\<lparr>signedData := sigHex\<rparr>, w'))
          else
            (case substrateSignable (dataToSign s) (isHash s) of
               Inl e \<Rightarrow> (Inl e, s, w)
             | Inr signable \<Rightarrow>
                 (let (res, w') = substrateSign env suri signable w
                  in case res of
                       Inl e \<Rightarrow> (Inl e, s, w')
                     | Inr sigHex \<Rightarrow>
                         (case tagSignature sigHex of
                            Inl e \<Rightarrow> (Inl e, s, w')
                          | Inr signedData' \<Rightarrow> (Inr (), s\<lparr>signedData := signedData'\<rparr>, w')))))"

text \<open>\<^verbatim>\<open>signDataWithSeed(seed, protocol)\<close>.\<close>

definition signDataWithSeed ::
  "'w signing_env \<Rightarrow> string \<Rightarrow> network_protocol \<Rightarrow> scanner_state \<Rightarrow> 'w \<Rightarrow>
   (error + unit) \<times> scanner_state \<times> 'w" where
  "signDataWithSeed env seed proto s w =
     (if proto = SUBSTRATE then
        (case sender s of
           None \<Rightarrow> (Inl TypeError, s, w)
         | Some acc \<Rightarrow>
             (case constructSURI env (path acc) [] seed of
                Inl e \<Rightarrow> (Inl e, s, w)
              | Inr suri \<Rightarrow> signDataWithSuri env suri s w))
      else signDataWithSuri env seed s w)"

text \<open>\<^verbatim>\<open>signDataLegacy(pin)\<close>.\<close>

definition signDataLegacy ::
  "'w signing_env \<Rightarrow> string \<Rightarrow> scanner_state \<Rightarrow> 'w \<Rightarrow> (error + unit) \<times> scanner_state \<times> 'w" where
  "signDataLegacy env pin s w =
     (case sender s of
        None \<Rightarrow> (Inl TypeError, s, w)
      | Some acc \<Rightarrow>
          (let (res, w') = decryptData env (encryptedSeed acc) pin w
           in case res of
                Inl e \<Rightarrow> (Inl e, s, w')
              | Inr suri \<Rightarrow> signDataWithSuri env suri s w'))"


section \<open>Sessions and sample collaborators\<close>

text \<open>
  A scan session: the captured fragments, as (frame index, part data), are submitted one
  after the other by \<^verbatim>\<open>setPartData\<close>, all with the frame count \<open>frameCnt\<close>.
\<close>

definition scanFrames ::
  "scanner_env \<Rightarrow> accounts_store \<Rightarrow> int \<Rightarrow> (int \<times> string) list \<Rightarrow> scanner_state \<Rightarrow> scanner_state" where
  "scanFrames env accountsStore frameCnt frames s =
     foldl (\<lambda>s' (frame, part). snd (setPartData env frame frameCnt part accountsStore s')) s frames"

text \<open>
  A sample account store with one account, held under the address with prefix 42, and a
  sample decoder: an assembled payload decodes to a message request of the address
  \<^verbatim>\<open>addr-2\<close> that carries the bytes it was given; the address codec of the sample maps
  every address to the key \<open>[7]\<close> and a key to \<^verbatim>\<open>addr-\<close> followed by the prefix.
\<close>

definition sampleAccount :: account where
  "sampleAccount =
     \<lparr> address = ''addr-42'', networkKey = SUBSTRATE_DEV, encryptedSeed = ''seed'',
       pinKey = ''pin'', path = ''//substrate_dev'' \<rparr>"

definition sampleStore :: accounts_store where
  "sampleStore =
     \<lparr> getAccountByAddress = (\<lambda>a. if a = ''addr-42'' then Some sampleAccount else None) \<rparr>"

definition emptyStore :: accounts_store where
  "emptyStore = \<lparr> getAccountByAddress = (\<lambda>a. None) \<rparr>"

definition sampleRequest :: "u8 list \<Rightarrow> sign_request" where
  "sampleRequest bytes =
     \<lparr> action = ''signData'', data_account = ''addr-2'', data_crypto = Some ''sr25519'',
       data_data = U8a bytes, data_rlp = None, req_isHash = False, oversized = False,
       preHash = Some (GenericExtrinsicPayload bytes) \<rparr>"

definition sampleEnv :: scanner_env where
  "sampleEnv =
     \<lparr> constructDataFromBytes = (\<lambda>bytes complete. Inr (SignRequest (sampleRequest bytes))),
       decodeAddress = (\<lambda>a. Inr [7]),
       encodeAddress = (\<lambda>key p. case p of
                                   None \<Rightarrow> ''addr''
                                 | Some n \<Rightarrow> if n = 42 then ''addr-42''
                                             else if n = 2 then ''addr-2'' else ''addr-36'') \<rparr>"

text \<open>
  A session in which the frames 0, 1 and 2 of three have all been stored: frame 0 is
  submitted twice, the first submission recording the frame count.
\<close>

definition sampleSession :: scanner_state where
  "sampleSession =
     scanFrames sampleEnv sampleStore 3 [(0, ''aa''), (0, ''aa''), (1, ''bb''), (2, ''cc'')]
       DEFAULT_STATE"

text \<open>
  A session with a frame count of 5 in which the frames 3, 4 and 1 have been stored in
  this order; frame 3 is submitted twice, the first submission recording the frame count.
\<close>

definition jumpSession :: scanner_state where
  "jumpSession =
     scanFrames sampleEnv sampleStore 5 [(3, ''cc''), (3, ''cc''), (4, ''dd''), (1, ''aa'')]
       DEFAULT_STATE"

text \<open>The sample decoder with an address codec that cannot decode the address.\<close>

definition undecodableEnv :: scanner_env where
  "undecodableEnv = sampleEnv\<lparr>decodeAddress := (\<lambda>a. Inl (Error ''Non-base58 character''))\<rparr>"

text \<open>A store that holds the account under the address with prefix 2.\<close>

definition kusamaStore :: accounts_store where
  "kusamaStore =
     \<lparr> getAccountByAddress =
         (\<lambda>a. if a = ''addr-2''
              then Some (sampleAccount\<lparr>address := ''addr-2'', networkKey := KUSAMA\<rparr>)
              else None) \<rparr>"

text \<open>
  A state ready for signing: the sample account is the sender, the data to sign are the
  text \<^verbatim>\<open>hello\<close>, and \<^verbatim>\<open>setBusy\<close> has been called. The world of the sample signing
  capabilities is the number of invocations made so far; one capability rejects every
  request, the other answers a Substrate request with the signature \<^verbatim>\<open>abcd\<close>, or with
  \<^verbatim>\<open>00\<close> when the signable it is given is \<^verbatim>\<open>undefined\<close>.
\<close>

definition signingState :: scanner_state where
  "signingState =
     setBusy (DEFAULT_STATE\<lparr>sender := Some sampleAccount, dataToSign := Text ''hello''\<rparr>)"

definition rejectingEnv :: "nat signing_env" where
  "rejectingEnv =
     \<lparr> APP_ID = ''signer'',
       secureEthkeySign = (\<lambda>app pin signable seed w. (Inl (Error ''rejected''), Suc w)),
       secureSubstrateSign = (\<lambda>app pin signable seed legacy w. (Inl (Error ''rejected''), Suc w)),
       brainWalletSign = (\<lambda>suri d w. (Inl (Error ''rejected''), Suc w)),
       substrateSign = (\<lambda>suri signable w. (Inl (Error ''rejected''), Suc w)),
       decryptData = (\<lambda>seed pin w. (Inl (Error ''rejected''), Suc w)),
       constructSURI = (\<lambda>derivePath password phrase. Inr (phrase @ derivePath)) \<rparr>"

definition acceptingEnv :: "nat signing_env" where
  "acceptingEnv =
     \<lparr> APP_ID = ''signer'',
       secureEthkeySign = (\<lambda>app pin signable seed w. (Inr ''ef'', Suc w)),
       secureSubstrateSign =
         (\<lambda>app pin signable seed legacy w.
            (Inr (case signable of None \<Rightarrow> ''00'' | Some d \<Rightarrow> ''abcd''), Suc w)),
       brainWalletSign = (\<lambda>suri d w. (Inr ''ef'', Suc w)),
       substrateSign =
         (\<lambda>suri signable w. (Inr (case signable of None \<Rightarrow> ''00'' | Some d \<Rightarrow> ''abcd''), Suc w)),
       decryptData = (\<lambda>seed pin w. (Inr ''suri'', Suc w)),
       constructSURI = (\<lambda>derivePath password phrase. Inr (phrase @ derivePath)) \<rparr>"

section \<open>Arithmetic and framing lemmas\<close>

lemma js_rem_nonneg: "0 \<le> n \<Longrightarrow> 0 < m \<Longrightarrow> js_rem n m = n mod m"
  by (cases "n = 0") (simp_all add: js_rem_def)

lemma js_rem_neg: "n < 0 \<Longrightarrow> 0 < m \<Longrightarrow> js_rem n m = - ((- n) mod m)"
  by (simp add: js_rem_def)

text \<open>For a positive modulus, \<open>mod_fn\<close> is the mathematical modulus.\<close>

lemma mod_fn_eq:
  assumes "0 < m"
  shows "mod_fn n m = n mod m"
proof (cases "0 \<le> n")
  case True
  then have "js_rem n m = n mod m"
    using assms by (rule js_rem_nonneg)
  moreover have "0 \<le> n mod m + m"
    using assms by (simp add: add_nonneg_nonneg)
  ultimately show ?thesis
    using assms by (simp add: mod_fn_def js_rem_nonneg)
next
  case False
  then have n: "n < 0" by simp
  let ?a = "(- n) mod m"
  have a: "0 \<le> ?a" "?a < m"
    using assms by simp_all
  have "js_rem n m = - ?a"
    using n assms by (rule js_rem_neg)
  moreover have "0 \<le> - ?a + m"
    using a by simp
  moreover have "(- ?a + m) mod m = n mod m"
    by (metis add.commute add.inverse_inverse mod_add_self1 mod_minus_eq)
  ultimately show ?thesis
    using assms by (simp add: mod_fn_def js_rem_nonneg)
qed

text \<open>
  An element read from the typed array is a number or \<^verbatim>\<open>undefined\<close>: it is never
  strictly equal to an object.
\<close>

lemma strict_equals_index0: "strict_equals (index0 bytes) (JSObject r) = False"
  by (cases bytes) auto

lemma reduce_spread_Cons: "reduce_spread (p # ps) = Inr (concat (p # ps))"
proof -
  have "foldl (\<lambda>acc part. acc @ part) a ps = a @ concat ps" for a :: "u8 list"
    by (induction ps arbitrary: a) auto
  then show ?thesis
    by (simp add: reduce_spread_def)
qed

section \<open>Frame 0 with a reserved first byte\<close>

text \<open>
  Claim C1 says that \<^verbatim>\<open>setPartData\<close> rejects a fragment whose first byte is \<^verbatim>\<open>0x00\<close> or
  \<^verbatim>\<open>0x7B\<close>, leaving the assembly state untouched. The source compares the first byte
  with a freshly created typed array, so the test never holds: \<^verbatim>\<open>setPartData\<close> throws on
  no input at all.
\<close>

theorem setPartData_never_rejects:
  "fst (setPartData env frame frameCnt part accountsStore s) = None"
  by (cases "multipartData s")
     (auto simp: setPartData_def Let_def Object_values_def reduce_spread_Cons
         strict_equals_index0 split: sum.splits)

text \<open>
  Frame 0 of three, its part data starting with \<^verbatim>\<open>0x7B\<close>: it is accepted; a fresh
  session records the frame count, and a session that has the count stores the fragment.
\<close>

theorem setPartData_never_rejects_witness:
  "fst (setPartData sampleEnv 0 3 ''7b00'' sampleStore DEFAULT_STATE) = None \<and>
   (totalFrameCount (snd (setPartData sampleEnv 0 3 ''7b00'' sampleStore DEFAULT_STATE)) = 3 \<and>
    multipartData (snd (setPartData sampleEnv 0 3 ''7b00'' sampleStore
                          (DEFAULT_STATE\<lparr>totalFrameCount := 3\<rparr>))) = [(0, [0x7B, 0])])"
proof (rule conjI)
  show "fst (setPartData sampleEnv 0 3 ''7b00'' sampleStore DEFAULT_STATE) = None"
    by (rule setPartData_never_rejects)
  show "totalFrameCount (snd (setPartData sampleEnv 0 3 ''7b00'' sampleStore DEFAULT_STATE)) = 3 \<and>
    multipartData (snd (setPartData sampleEnv 0 3 ''7b00'' sampleStore
                          (DEFAULT_STATE\<lparr>totalFrameCount := 3\<rparr>))) = [(0, [0x7B, 0])]"
    by code_simp
qed

section \<open>Missed frames\<close>

text \<open>
  What a call that stores its fragment does to \<^verbatim>\<open>missedFrames\<close>, with the modulus
  written out: the indices it adds start at the latest frame itself.
\<close>

lemma setPartData_missedFrames:
  assumes "int (length (multipartData s)) < totalFrameCount s"
  shows "missedFrames (snd (setPartData env frame frameCnt part accountsStore s)) =
     (let d = (frame - toNumber (latestFrame s)) mod totalFrameCount s - 1 in
      if truthy (latestFrame s) \<and> 1 \<le> d \<and> frame \<notin> set (missedFrames s)
      then Array_from_Set
             (missedFrames s @
              map (\<lambda>i. (int i + toNumber (latestFrame s)) mod totalFrameCount s) [0 ..< nat d])
      else if frame - 1 \<in> set (missedFrames s) then remove1 (frame - 1) (missedFrames s)
      else missedFrames s)"
proof -
  have pos: "0 < totalFrameCount s"
    using assms by linarith
  have ne: "totalFrameCount s \<noteq> 0" "\<not> (int (length (multipartData s)) = totalFrameCount s)"
    using assms by simp_all
  show ?thesis
    using assms ne
    by (simp add: setPartData_def Let_def strict_equals_index0 mod_fn_eq [OF pos])
qed

text \<open>
  Claim C2 says that a frame received at a forward distance \<open>d \<ge> 1\<close> from the latest frame
  puts the \<open>d\<close> indices that follow the latest frame on the list of missed frames, so that
  frames arriving as 0, 2, 1 with a frame count of 3 (scenario B) give the list \<open>{1}\<close>
  after frame 2 and the empty list after frame 1. The source does otherwise: the first
  submission of a session only records the frame count, after frame 2 no frame is listed
  as missed, and after frame 1 the list holds 2.
\<close>

theorem scenario_B_missedFrames:
  "missedFrames (scanFrames sampleEnv sampleStore 3 [(0, ''aa''), (2, ''cc'')] DEFAULT_STATE) = [] \<and>
   missedFrames (scanFrames sampleEnv sampleStore 3 [(0, ''aa''), (2, ''cc''), (1, ''bb'')]
                   DEFAULT_STATE) = [2] \<and>
   multipartData (scanFrames sampleEnv sampleStore 3 [(0, ''aa''), (2, ''cc''), (1, ''bb'')]
                    DEFAULT_STATE) = [(1, [0xBB]), (2, [0xCC])]"
  by code_simp

text \<open>
  Claim C4 says that after every call of \<^verbatim>\<open>setPartData\<close> the list \<^verbatim>\<open>missedFrames\<close>
  holds no index that is a key of \<^verbatim>\<open>multipartData\<close>. The source does not keep this:
  with a frame count of 5, frame 1 captured twice and then frame 3, the list of missed
  frames is \<open>[1]\<close> while frames 1 and 3 are stored.
\<close>

theorem missedFrames_holds_stored_frame:
  "missedFrames (scanFrames sampleEnv sampleStore 5 [(1, ''aa''), (1, ''aa''), (3, ''cc'')]
                   DEFAULT_STATE) = [1] \<and>
   map fst (multipartData (scanFrames sampleEnv sampleStore 5
                             [(1, ''aa''), (1, ''aa''), (3, ''cc'')] DEFAULT_STATE)) = [1, 3]"
  by code_simp

subsection \<open>Submitting a stored frame again\<close>

lemma obj_set_same:
  "sorted_wrt (<) (map fst kvs) \<Longrightarrow> map_of kvs k = Some v \<Longrightarrow> obj_set k v kvs = kvs"
proof (induction k v kvs rule: obj_set.induct)
  case (1 k v)
  then show ?case by simp
next
  case (2 k v k' v' kvs)
  show ?case
  proof (cases "k = k'")
    case True
    then show ?thesis using 2 by simp
  next
    case False
    then have later: "map_of kvs k = Some v"
      using "2.prems" by simp
    then have "k \<in> fst ` set kvs"
      using map_of_SomeD [OF later] by force
    then have "k' < k"
      using "2.prems"(1) by auto
    then show ?thesis
      using 2 False later by simp
  qed
qed

lemma setParsedData_complete_frames:
  "setParsedData_complete env bytes accountsStore s = Inr s' \<Longrightarrow>
   multipartData s' = multipartData s \<and> missedFrames s' = missedFrames s"
  by (auto simp: setParsedData_complete_def setParsedData_body_def setPrehashPayload_def
      setErrorMsg_def split: sum.splits parsed_data.splits option.splits)

lemma jumpSession_value:
  "jumpSession =
     DEFAULT_STATE\<lparr>totalFrameCount := 5, latestFrame := Some 1, completedFramesCount := 2,
       missedFrames := [4], multipartData := [(1, [0xAA]), (3, [0xCC]), (4, [0xDD])]\<rparr>"
  by code_simp

text \<open>
  Claim C5, as the code has it. A frame that is stored is submitted again with the same
  data. The payload is overwritten with the same data: \<^verbatim>\<open>multipartData\<close> is unchanged.
  The tracking of missed frames treats the submission like any other frame:
  \<^verbatim>\<open>missedFrames\<close> is unchanged when the submission is not a skip ahead of the latest
  frame (there is no latest frame, or the fragment is not stored, or the distance
  \<open>mod(frame - latestFrame, totalFrameCount) - 1\<close> is less than 1, or the frame is
  listed) and \<open>frame - 1\<close> is not listed. In particular the latest frame submitted
  again changes nothing in \<^verbatim>\<open>missedFrames\<close> when \<open>frame - 1\<close> is not listed.
\<close>

theorem resubmission_of_stored_frame:
  assumes "sorted_wrt (<) (map fst (multipartData s))"
    and "map_of (multipartData s) frame = Some (partDataAsBytes part)"
  shows "multipartData (snd (setPartData env frame frameCnt part accountsStore s))
           = multipartData s \<and>
         (\<not> (int (length (multipartData s)) < totalFrameCount s \<and> latestFrame s \<noteq> None \<and>
             1 \<le> (frame - toNumber (latestFrame s)) mod totalFrameCount s - 1 \<and>
             frame \<notin> set (missedFrames s)) \<and>
          frame - 1 \<notin> set (missedFrames s) \<longrightarrow>
            missedFrames (snd (setPartData env frame frameCnt part accountsStore s))
              = missedFrames s) \<and>
         (latestFrame s = Some frame \<and> frame - 1 \<notin> set (missedFrames s) \<longrightarrow>
            missedFrames (snd (setPartData env frame frameCnt part accountsStore s))
              = missedFrames s)"
proof -
  let ?s' = "snd (setPartData env frame frameCnt part accountsStore s)"
  have same: "obj_set frame (partDataAsBytes part) (multipartData s) = multipartData s"
    using assms by (rule obj_set_same)
  have data: "multipartData ?s' = multipartData s"
    using same
    by (auto simp: setPartData_def Let_def strict_equals_index0
        dest: setParsedData_complete_frames split: sum.splits)
  have other: "\<not> int (length (multipartData s)) < totalFrameCount s \<Longrightarrow>
      missedFrames ?s' = missedFrames s"
    by (auto simp: setPartData_def Let_def strict_equals_index0
        dest: setParsedData_complete_frames split: sum.splits)
  have quiet: "missedFrames ?s' = missedFrames s"
    if "\<not> (int (length (multipartData s)) < totalFrameCount s \<and> latestFrame s \<noteq> None \<and>
             1 \<le> (frame - toNumber (latestFrame s)) mod totalFrameCount s - 1 \<and>
             frame \<notin> set (missedFrames s))"
      and "frame - 1 \<notin> set (missedFrames s)"
  proof (cases "int (length (multipartData s)) < totalFrameCount s")
    case True
    then show ?thesis
      using that setPartData_missedFrames [OF True, of env frame frameCnt part accountsStore]
      by (cases "latestFrame s") (auto simp: Let_def)
  next
    case False
    then show ?thesis by (rule other)
  qed
  have latest: "missedFrames ?s' = missedFrames s"
    if "latestFrame s = Some frame" and "frame - 1 \<notin> set (missedFrames s)"
  proof (rule quiet)
    show "\<not> (int (length (multipartData s)) < totalFrameCount s \<and> latestFrame s \<noteq> None \<and>
             1 \<le> (frame - toNumber (latestFrame s)) mod totalFrameCount s - 1 \<and>
             frame \<notin> set (missedFrames s))"
      using that(1) by simp
    show "frame - 1 \<notin> set (missedFrames s)" by (rule that(2))
  qed
  show ?thesis
    using data quiet latest by blast
qed

text \<open>
  The session with frames 3, 4 and 1 stored, frame 1 the latest and 4 listed as missed:
  frame 1 submitted again leaves the stored data and the list as they are.
\<close>

theorem resubmission_of_stored_frame_witness:
  "sorted_wrt (<) (map fst (multipartData jumpSession)) \<and>
   map_of (multipartData jumpSession) 1 = Some (partDataAsBytes ''aa'') \<and>
   latestFrame jumpSession = Some 1 \<and>
   (1 :: int) - 1 \<notin> set (missedFrames jumpSession) \<and>
   multipartData (snd (setPartData sampleEnv 1 5 ''aa'' sampleStore jumpSession))
     = [(1, [0xAA]), (3, [0xCC]), (4, [0xDD])] \<and>
   missedFrames (snd (setPartData sampleEnv 1 5 ''aa'' sampleStore jumpSession)) = [4]"
proof -
  have inv: "sorted_wrt (<) (map fst (multipartData jumpSession))"
    by (simp add: jumpSession_value)
  have bytes: "partDataAsBytes ''aa'' = [0xAA]"
    by code_simp
  have stored: "map_of (multipartData jumpSession) 1 = Some (partDataAsBytes ''aa'')"
    by (simp add: jumpSession_value bytes)
  have l: "latestFrame jumpSession = Some 1"
    by (simp add: jumpSession_value)
  have m: "(1 :: int) - 1 \<notin> set (missedFrames jumpSession)"
    by (simp add: jumpSession_value)
  note t = resubmission_of_stored_frame [OF inv stored, of sampleEnv 5 sampleStore]
  have d: "multipartData (snd (setPartData sampleEnv 1 5 ''aa'' sampleStore jumpSession))
     = [(1, [0xAA]), (3, [0xCC]), (4, [0xDD])]"
    using t [THEN conjunct1] by (simp add: jumpSession_value)
  have "missedFrames (snd (setPartData sampleEnv 1 5 ''aa'' sampleStore jumpSession))
     = missedFrames jumpSession"
    using t [THEN conjunct2, THEN conjunct2] l m by blast
  then have f: "missedFrames (snd (setPartData sampleEnv 1 5 ''aa'' sampleStore jumpSession)) = [4]"
    by (simp add: jumpSession_value)
  show ?thesis
    using inv stored l m d f by blast
qed

text \<open>
  Claim C5 as stated fails: it says that submitting a stored frame again, with the same
  data, changes nothing in \<^verbatim>\<open>missedFrames\<close> in every state of a session. In the session
  above frame 3 is stored and frame 1 is the latest; frame 3 submitted again, with its
  data, skips over frame 2, and the call lists a frame as missed as it does for any skip:
  the list changes from \<open>[4]\<close> to \<open>[4, 1]\<close>, the stored data staying as they are.
\<close>

theorem resubmission_changes_missedFrames:
  "multipartData (scanFrames sampleEnv sampleStore 5
                    [(3, ''cc''), (3, ''cc''), (4, ''dd''), (1, ''aa'')] DEFAULT_STATE)
     = [(1, [0xAA]), (3, [0xCC]), (4, [0xDD])] \<and>
   missedFrames (scanFrames sampleEnv sampleStore 5
                   [(3, ''cc''), (3, ''cc''), (4, ''dd''), (1, ''aa'')] DEFAULT_STATE) = [4] \<and>
   multipartData (scanFrames sampleEnv sampleStore 5
                    [(3, ''cc''), (3, ''cc''), (4, ''dd''), (1, ''aa''), (3, ''cc'')] DEFAULT_STATE)
     = [(1, [0xAA]), (3, [0xCC]), (4, [0xDD])] \<and>
   missedFrames (scanFrames sampleEnv sampleStore 5
                   [(3, ''cc''), (3, ''cc''), (4, ''dd''), (1, ''aa''), (3, ''cc'')] DEFAULT_STATE)
     = [4, 1]"
  by code_simp

section \<open>Completion of a multipart payload\<close>

lemma obj_set_mem: "(a, b) \<in> set (obj_set k v kvs) \<Longrightarrow> a = k \<or> (a, b) \<in> set kvs"
  by (induction k v kvs rule: obj_set.induct) (auto split: if_splits)

lemma obj_set_sorted:
  "sorted_wrt (<) (map fst kvs) \<Longrightarrow> sorted_wrt (<) (map fst (obj_set k v kvs))"
  by (induction k v kvs rule: obj_set.induct) (fastforce dest: obj_set_mem)+

text \<open>The keys of \<^verbatim>\<open>multipartData\<close> stay in ascending order, whatever is submitted.\<close>

lemma setPartData_sorted:
  assumes "sorted_wrt (<) (map fst (multipartData s))"
  shows "sorted_wrt (<)
           (map fst (multipartData (snd (setPartData env frame frameCnt part accountsStore s))))"
  by (auto simp: setPartData_def Let_def strict_equals_index0 obj_set_sorted assms
      setParsedData_complete_def setParsedData_body_def setPrehashPayload_def setErrorMsg_def
      split: sum.splits parsed_data.splits option.splits)

lemma scanFrames_sorted:
  "sorted_wrt (<) (map fst (multipartData s)) \<Longrightarrow>
   sorted_wrt (<) (map fst (multipartData (scanFrames env accountsStore frameCnt frames s)))"
  unfolding scanFrames_def
  by (induction frames arbitrary: s) (auto simp: setPartData_sorted)

lemma sort_key_fst_sorted: "sorted_wrt (<) (map fst kvs) \<Longrightarrow> sort_key fst kvs = kvs"
  by (simp add: sort_key_id_if_sorted strict_sorted_iff)

text \<open>With \<^verbatim>\<open>multipartComplete = true\<close> the handler of fragments is never called.\<close>

lemma setParsedData_True:
  "setParsedData env bytes accountsStore True s = setParsedData_complete env bytes accountsStore s"
  by (simp add: setParsedData_def setParsedData_complete_def setParsedData_body_def
      split: sum.splits parsed_data.splits)

text \<open>The sample session, evaluated.\<close>

lemma sampleSession_value:
  "sampleSession =
     DEFAULT_STATE\<lparr>totalFrameCount := 3, latestFrame := Some 2, completedFramesCount := 2,
       multipartData := [(0, [0xAA]), (1, [0xBB]), (2, [0xCC])]\<rparr>"
  by code_simp

text \<open>
  Claim C3, as the code has it. A call of \<^verbatim>\<open>setPartData\<close> makes the completion
  transition exactly when, on entry to the call, the number of stored payloads equals
  \<^verbatim>\<open>totalFrameCount\<close> (which is positive) and the session is not marked complete. The
  call then sets \<^verbatim>\<open>multipartComplete\<close>, concatenates the stored payloads in ascending
  order of their index behind the header made of the marker, \<^verbatim>\<open>totalFrameCount\<close> and the
  index of the frame just submitted, and passes the blob to \<^verbatim>\<open>setParsedData\<close> with
  \<^verbatim>\<open>multipartComplete = true\<close>; the fragment submitted by that call is not stored. In
  every other call the fields written by the transition keep their values. The keys of
  \<^verbatim>\<open>multipartData\<close> are in ascending order in every state that submissions reach from
  the default state (\<open>scanFrames_sorted\<close>).
\<close>

theorem completion_on_entry:
  assumes "sorted_wrt (<) (map fst (multipartData s))"
  shows "(int (length (multipartData s)) = totalFrameCount s \<and> 0 < totalFrameCount s \<and>
          \<not> multipartComplete s \<longrightarrow>
            snd (setPartData env frame frameCnt part accountsStore s) =
              (let blob = [0] @ encodeNumber (totalFrameCount s) @ encodeNumber frame @
                          concat (map snd (sort_key fst (multipartData s)));
                   s2 = s\<lparr>multipartComplete := True\<rparr>
               in (case setParsedData env blob accountsStore True s2 of
                     Inl e \<Rightarrow> s2
                   | Inr s' \<Rightarrow> s')\<lparr>completedFramesCount := totalFrameCount s\<rparr>)) \<and>
         (\<not> (int (length (multipartData s)) = totalFrameCount s \<and> 0 < totalFrameCount s \<and>
             \<not> multipartComplete s) \<longrightarrow>
            multipartComplete (snd (setPartData env frame frameCnt part accountsStore s))
              = multipartComplete s \<and>
            unsignedData (snd (setPartData env frame frameCnt part accountsStore s))
              = unsignedData s \<and>
            prehash (snd (setPartData env frame frameCnt part accountsStore s)) = prehash s \<and>
            scanErrorMsg (snd (setPartData env frame frameCnt part accountsStore s))
              = scanErrorMsg s)"
proof (intro conjI impI)
  assume due: "int (length (multipartData s)) = totalFrameCount s \<and> 0 < totalFrameCount s \<and>
          \<not> multipartComplete s"
  then obtain p ps where mdata: "multipartData s = p # ps"
    by (cases "multipartData s") auto
  have "reduce_spread (Object_values (multipartData s)) = Inr (concat (map snd (multipartData s)))"
    by (simp add: mdata Object_values_def reduce_spread_Cons)
  moreover have "totalFrameCount s = int (length (multipartData s))" "multipartData s \<noteq> []"
    "\<not> multipartComplete s"
    using due mdata by auto
  ultimately show "snd (setPartData env frame frameCnt part accountsStore s) =
              (let blob = [0] @ encodeNumber (totalFrameCount s) @ encodeNumber frame @
                          concat (map snd (sort_key fst (multipartData s)));
                   s2 = s\<lparr>multipartComplete := True\<rparr>
               in (case setParsedData env blob accountsStore True s2 of
                     Inl e \<Rightarrow> s2
                   | Inr s' \<Rightarrow> s')\<lparr>completedFramesCount := totalFrameCount s\<rparr>)"
    using assms
    by (simp add: setPartData_def Let_def strict_equals_index0 MULTIPART_def
        sort_key_fst_sorted setParsedData_True)
next
  assume nd: "\<not> (int (length (multipartData s)) = totalFrameCount s \<and> 0 < totalFrameCount s \<and>
             \<not> multipartComplete s)"
  then show "multipartComplete (snd (setPartData env frame frameCnt part accountsStore s))
              = multipartComplete s"
    by (auto simp: setPartData_def Let_def strict_equals_index0)
  from nd show "unsignedData (snd (setPartData env frame frameCnt part accountsStore s))
              = unsignedData s"
    by (auto simp: setPartData_def Let_def strict_equals_index0)
  from nd show "prehash (snd (setPartData env frame frameCnt part accountsStore s)) = prehash s"
    by (auto simp: setPartData_def Let_def strict_equals_index0)
  from nd show "scanErrorMsg (snd (setPartData env frame frameCnt part accountsStore s))
              = scanErrorMsg s"
    by (auto simp: setPartData_def Let_def strict_equals_index0)
qed

text \<open>
  The session with frames 0, 1 and 2 stored: the next submission, of frame 0 again,
  completes it. The blob is the header \<open>00 0003 0000\<close> and the three payloads; the sample
  decoder hands its bytes on, and the account is found under the prefix 42.
\<close>

theorem completion_on_entry_witness:
  "sorted_wrt (<) (map fst (multipartData sampleSession)) \<and>
   int (length (multipartData sampleSession)) = totalFrameCount sampleSession \<and>
   0 < totalFrameCount sampleSession \<and>
   \<not> multipartComplete sampleSession \<and>
   multipartComplete (snd (setPartData sampleEnv 0 3 ''aa'' sampleStore sampleSession)) \<and>
   unsignedData (snd (setPartData sampleEnv 0 3 ''aa'' sampleStore sampleSession)) =
     Some (SignRequest ((sampleRequest [0, 0, 3, 0, 0, 0xAA, 0xBB, 0xCC])
                          \<lparr>data_account := ''addr-42''\<rparr>))"
proof -
  have inv: "sorted_wrt (<) (map fst (multipartData sampleSession))"
    by (simp add: sampleSession_value)
  have due: "int (length (multipartData sampleSession)) = totalFrameCount sampleSession \<and>
      0 < totalFrameCount sampleSession \<and> \<not> multipartComplete sampleSession"
    by (simp add: sampleSession_value DEFAULT_STATE_def)
  note fired = completion_on_entry [OF inv, of sampleEnv 0 3 "''aa''" sampleStore,
      THEN conjunct1, THEN mp, OF due]
  have c1: "multipartComplete (snd (setPartData sampleEnv 0 3 ''aa'' sampleStore sampleSession))"
    by (subst fired, unfold sampleSession_value, code_simp)
  have c2: "unsignedData (snd (setPartData sampleEnv 0 3 ''aa'' sampleStore sampleSession)) =
     Some (SignRequest ((sampleRequest [0, 0, 3, 0, 0, 0xAA, 0xBB, 0xCC])
                          \<lparr>data_account := ''addr-42''\<rparr>))"
    by (subst fired, unfold sampleSession_value, code_simp)
  show ?thesis
    using inv due c1 c2 by blast
qed

text \<open>
  Claim C3 as stated fails on scenario A: after the frames 0, 1 and 2 of three the session
  is not complete and nothing has been decoded. Nor is it complete at the moment the third
  payload has been stored (the sample session): the transition waits for the next call.
\<close>

theorem scenario_A_not_complete_on_frame_2:
  "\<not> multipartComplete (scanFrames sampleEnv sampleStore 3
                           [(0, ''aa''), (1, ''bb''), (2, ''cc'')] DEFAULT_STATE) \<and>
   unsignedData (scanFrames sampleEnv sampleStore 3
                   [(0, ''aa''), (1, ''bb''), (2, ''cc'')] DEFAULT_STATE) = None \<and>
   map fst (multipartData sampleSession) = [0, 1, 2] \<and>
   totalFrameCount sampleSession = 3 \<and>
   \<not> multipartComplete sampleSession \<and>
   unsignedData sampleSession = None"
proof -
  have "\<not> multipartComplete (scanFrames sampleEnv sampleStore 3
                           [(0, ''aa''), (1, ''bb''), (2, ''cc'')] DEFAULT_STATE) \<and>
     unsignedData (scanFrames sampleEnv sampleStore 3
                   [(0, ''aa''), (1, ''bb''), (2, ''cc'')] DEFAULT_STATE) = None"
    by code_simp
  then show ?thesis
    by (simp add: sampleSession_value DEFAULT_STATE_def)
qed


section \<open>Resolving the account across networks\<close>

lemma networksLoop_decoded:
  assumes "decodeAddress env addr = Inr publicKey"
    and "\<forall>key \<in> set networks. map_of SUBSTRATE_NETWORK_LIST key \<noteq> None"
  shows "networksLoop env accountsStore addr networks =
     Inr (case List.map_filter (getAccountByAddress accountsStore)
                 (map (\<lambda>key. encodeAddress env publicKey
                                (prefix (the (map_of SUBSTRATE_NETWORK_LIST key)))) networks) of
            [] \<Rightarrow> None
          | acc # _ \<Rightarrow> Some acc)"
  using assms(2)
proof (induction networks)
  case Nil
  show ?case by simp
next
  case (Cons key networks)
  then show ?case
    using assms(1) by (auto split: option.splits)
qed

lemma SUBSTRATE_NETWORK_LIST_prefixes:
  "map (\<lambda>key. prefix (the (map_of SUBSTRATE_NETWORK_LIST key))) (Object_keys SUBSTRATE_NETWORK_LIST)
     = map (prefix \<circ> snd) SUBSTRATE_NETWORK_LIST"
  by code_simp

lemma SUBSTRATE_NETWORK_LIST_defined:
  "\<forall>key \<in> set (Object_keys SUBSTRATE_NETWORK_LIST). map_of SUBSTRATE_NETWORK_LIST key \<noteq> None"
  by code_simp

text \<open>
  The loop over the known networks returns the first account that the store holds under
  a re-encoding of the key, the re-encodings taken in the order of the table.
\<close>

lemma networksLoop_all:
  assumes "decodeAddress env addr = Inr publicKey"
  shows "networksLoop env accountsStore addr (Object_keys SUBSTRATE_NETWORK_LIST) =
     Inr (case List.map_filter (getAccountByAddress accountsStore)
                 (map (encodeAddress env publicKey) (map (prefix \<circ> snd) SUBSTRATE_NETWORK_LIST)) of
            [] \<Rightarrow> None
          | acc # _ \<Rightarrow> Some acc)"
proof -
  have "map (\<lambda>key. encodeAddress env publicKey (prefix (the (map_of SUBSTRATE_NETWORK_LIST key))))
          (Object_keys SUBSTRATE_NETWORK_LIST)
        = map (encodeAddress env publicKey)
            (map (\<lambda>key. prefix (the (map_of SUBSTRATE_NETWORK_LIST key)))
               (Object_keys SUBSTRATE_NETWORK_LIST))"
    by simp
  then show ?thesis
    using networksLoop_decoded [OF assms SUBSTRATE_NETWORK_LIST_defined, of accountsStore]
    by (simp only: SUBSTRATE_NETWORK_LIST_prefixes)
qed

text \<open>
  Claim C9, as the code has it. A payload is decoded to a request whose account address
  the store does not hold, and the address decodes to a public key. The key is encoded with the prefix of
  every Substrate network, in the order in which the table declares them (2, 2, 2, 42, 42,
  36), and each encoding is looked up. If the store holds an account under one of them,
  the request is stored with the address of the first account found and no error message
  is set; if it holds none, the error message names the address as it was decoded (and
  the payload before hashing is kept for display).
\<close>

theorem resolve_across_networks:
  assumes "constructDataFromBytes env bytes complete = Inr (SignRequest req)"
    and "getAccountByAddress accountsStore (data_account req) = None"
    and "decodeAddress env (data_account req) = Inr publicKey"
  shows "map (prefix \<circ> snd) SUBSTRATE_NETWORK_LIST
           = [Some 2, Some 2, Some 2, Some 42, Some 42, Some 36] \<and>
    (case List.map_filter (getAccountByAddress accountsStore)
            (map (encodeAddress env publicKey) (map (prefix \<circ> snd) SUBSTRATE_NETWORK_LIST)) of
       acc # _ \<Rightarrow>
         setParsedData env bytes accountsStore complete s =
           Inr (s\<lparr>unsignedData := Some (SignRequest (req\<lparr>data_account := address acc\<rparr>))\<rparr>)
     | [] \<Rightarrow>
         setParsedData env bytes accountsStore complete s =
           Inr (s\<lparr>scanErrorMsg := ''No private key found for '' @ data_account req @
                                   '' in your signer key storage.'',
                  prehash := preHash req\<rparr>))"
proof
  show "map (prefix \<circ> snd) SUBSTRATE_NETWORK_LIST
          = [Some 2, Some 2, Some 2, Some 42, Some 42, Some 36]"
    by code_simp
  show "(case List.map_filter (getAccountByAddress accountsStore)
            (map (encodeAddress env publicKey) (map (prefix \<circ> snd) SUBSTRATE_NETWORK_LIST)) of
       acc # _ \<Rightarrow>
         setParsedData env bytes accountsStore complete s =
           Inr (s\<lparr>unsignedData := Some (SignRequest (req\<lparr>data_account := address acc\<rparr>))\<rparr>)
     | [] \<Rightarrow>
         setParsedData env bytes accountsStore complete s =
           Inr (s\<lparr>scanErrorMsg := ''No private key found for '' @ data_account req @
                                   '' in your signer key storage.'',
                  prehash := preHash req\<rparr>))"
    using assms(1,2)
    by (simp add: setParsedData_def setParsedData_body_def networksLoop_all [OF assms(3)]
        setErrorMsg_def setPrehashPayload_def split: list.splits)
qed

text \<open>
  Scenario D: the sample store holds no account under \<^verbatim>\<open>addr-2\<close>, the address of the
  request, but one under the encoding with prefix 42: the request is stored with that
  account's address. With an empty store the error message is set.
\<close>

theorem resolve_across_networks_witness:
  "constructDataFromBytes sampleEnv [1, 2] False = Inr (SignRequest (sampleRequest [1, 2])) \<and>
   getAccountByAddress sampleStore (data_account (sampleRequest [1, 2])) = None \<and>
   decodeAddress sampleEnv (data_account (sampleRequest [1, 2])) = Inr [7] \<and>
   setParsedData sampleEnv [1, 2] sampleStore False DEFAULT_STATE =
     Inr (DEFAULT_STATE\<lparr>unsignedData :=
            Some (SignRequest ((sampleRequest [1, 2])\<lparr>data_account := ''addr-42''\<rparr>))\<rparr>) \<and>
   getAccountByAddress emptyStore (data_account (sampleRequest [1, 2])) = None \<and>
   setParsedData sampleEnv [1, 2] emptyStore False DEFAULT_STATE =
     Inr (DEFAULT_STATE\<lparr>scanErrorMsg := ''No private key found for addr-2 in your signer key storage.'',
            prehash := Some (GenericExtrinsicPayload [1, 2])\<rparr>)"
proof -
  have parsed: "constructDataFromBytes sampleEnv [1, 2] False = Inr (SignRequest (sampleRequest [1, 2]))"
    by (simp add: sampleEnv_def)
  have miss: "getAccountByAddress sampleStore (data_account (sampleRequest [1, 2])) = None"
    by (simp add: sampleStore_def sampleRequest_def)
  have miss': "getAccountByAddress emptyStore (data_account (sampleRequest [1, 2])) = None"
    by (simp add: emptyStore_def)
  have key: "decodeAddress sampleEnv (data_account (sampleRequest [1, 2])) = Inr [7]"
    by (simp add: sampleEnv_def)
  have found: "List.map_filter (getAccountByAddress sampleStore)
            (map (encodeAddress sampleEnv [7]) (map (prefix \<circ> snd) SUBSTRATE_NETWORK_LIST))
          = [sampleAccount, sampleAccount]"
    by code_simp
  have none: "List.map_filter (getAccountByAddress emptyStore)
            (map (encodeAddress sampleEnv [7]) (map (prefix \<circ> snd) SUBSTRATE_NETWORK_LIST)) = []"
    by code_simp
  have a: "setParsedData sampleEnv [1, 2] sampleStore False DEFAULT_STATE =
     Inr (DEFAULT_STATE\<lparr>unsignedData :=
            Some (SignRequest ((sampleRequest [1, 2])\<lparr>data_account := ''addr-42''\<rparr>))\<rparr>)"
    using resolve_across_networks [OF parsed miss key, of DEFAULT_STATE, THEN conjunct2,
        unfolded found]
    by (simp add: sampleAccount_def)
  have b: "setParsedData sampleEnv [1, 2] emptyStore False DEFAULT_STATE =
     Inr (DEFAULT_STATE\<lparr>scanErrorMsg := ''No private key found for addr-2 in your signer key storage.'',
            prehash := Some (GenericExtrinsicPayload [1, 2])\<rparr>)"
    using resolve_across_networks [OF parsed miss' key, of DEFAULT_STATE, THEN conjunct2,
        unfolded none]
    by (simp add: sampleRequest_def)
  show ?thesis
    using parsed miss key a miss' b by blast
qed

text \<open>
  Claim C9 as stated fails for an address that the store does not hold and that does not
  decode to a public key: \<^verbatim>\<open>decodeAddress\<close> throws inside the loop, the call is rejected
  with its error, and neither the request nor the error message is stored.
\<close>

theorem undecodable_address_rejects:
  "constructDataFromBytes undecodableEnv [1, 2] False = Inr (SignRequest (sampleRequest [1, 2])) \<and>
   getAccountByAddress emptyStore (data_account (sampleRequest [1, 2])) = None \<and>
   decodeAddress undecodableEnv (data_account (sampleRequest [1, 2]))
     = Inl (Error ''Non-base58 character'') \<and>
   setParsedData undecodableEnv [1, 2] emptyStore False DEFAULT_STATE
     = Inl (Error ''Non-base58 character'')"
  by code_simp

section \<open>The payload before hashing\<close>

text \<open>
  Claim C10. \<^verbatim>\<open>setParsedData\<close> sets \<^verbatim>\<open>prehash\<close> on two paths only: when the store
  holds the address of the request as it is, and when every lookup has missed and the
  error message is set. When the account is found under a re-encoding, the method returns
  right after storing the request: \<^verbatim>\<open>prehash\<close> keeps the value it had. When the address
  cannot be decoded the call is rejected and no field is written.
\<close>

theorem prehash_set_on_two_paths:
  assumes "constructDataFromBytes env bytes complete = Inr (SignRequest req)"
  shows "(getAccountByAddress accountsStore (data_account req) = Some found \<longrightarrow>
            setParsedData env bytes accountsStore complete s =
              Inr (s\<lparr>unsignedData := Some (SignRequest req), prehash := preHash req\<rparr>)) \<and>
         (getAccountByAddress accountsStore (data_account req) = None \<and>
          networksLoop env accountsStore (data_account req) (Object_keys SUBSTRATE_NETWORK_LIST)
            = Inr (Some acc) \<longrightarrow>
            setParsedData env bytes accountsStore complete s =
              Inr (s\<lparr>unsignedData := Some (SignRequest (req\<lparr>data_account := address acc\<rparr>))\<rparr>) \<and>
            map_sum id prehash (setParsedData env bytes accountsStore complete s)
              = Inr (prehash s)) \<and>
         (getAccountByAddress accountsStore (data_account req) = None \<and>
          networksLoop env accountsStore (data_account req) (Object_keys SUBSTRATE_NETWORK_LIST)
            = Inr None \<longrightarrow>
            setParsedData env bytes accountsStore complete s =
              Inr (s\<lparr>scanErrorMsg := ''No private key found for '' @ data_account req @
                                      '' in your signer key storage.'',
                     prehash := preHash req\<rparr>)) \<and>
         (getAccountByAddress accountsStore (data_account req) = None \<and>
          networksLoop env accountsStore (data_account req) (Object_keys SUBSTRATE_NETWORK_LIST)
            = Inl e \<longrightarrow>
            setParsedData env bytes accountsStore complete s = Inl e)"
  using assms
  by (simp add: setParsedData_def setParsedData_body_def setPrehashPayload_def setErrorMsg_def)

text \<open>
  The three paths on the sample decoder, whose request carries the payload \<open>[1, 2]\<close>:
  with the address in the store, \<^verbatim>\<open>prehash\<close> becomes that payload; with the account
  under prefix 42, a state whose \<^verbatim>\<open>prehash\<close> is \<open>[9]\<close> keeps it; with an empty store,
  \<^verbatim>\<open>prehash\<close> becomes the payload.
\<close>

theorem prehash_set_on_two_paths_witness:
  "constructDataFromBytes sampleEnv [1, 2] False = Inr (SignRequest (sampleRequest [1, 2])) \<and>
   preHash (sampleRequest [1, 2]) = Some (GenericExtrinsicPayload [1, 2]) \<and>
   getAccountByAddress kusamaStore (data_account (sampleRequest [1, 2]))
     = Some (sampleAccount\<lparr>address := ''addr-2'', networkKey := KUSAMA\<rparr>) \<and>
   setParsedData sampleEnv [1, 2] kusamaStore False DEFAULT_STATE =
     Inr (DEFAULT_STATE\<lparr>unsignedData := Some (SignRequest (sampleRequest [1, 2])),
            prehash := Some (GenericExtrinsicPayload [1, 2])\<rparr>) \<and>
   getAccountByAddress sampleStore (data_account (sampleRequest [1, 2])) = None \<and>
   networksLoop sampleEnv sampleStore (data_account (sampleRequest [1, 2]))
       (Object_keys SUBSTRATE_NETWORK_LIST) = Inr (Some sampleAccount) \<and>
   setParsedData sampleEnv [1, 2] sampleStore False
       (DEFAULT_STATE\<lparr>prehash := Some (GenericExtrinsicPayload [9])\<rparr>) =
     Inr (DEFAULT_STATE\<lparr>prehash := Some (GenericExtrinsicPayload [9]),
            unsignedData :=
              Some (SignRequest ((sampleRequest [1, 2])\<lparr>data_account := ''addr-42''\<rparr>))\<rparr>) \<and>
   getAccountByAddress emptyStore (data_account (sampleRequest [1, 2])) = None \<and>
   networksLoop sampleEnv emptyStore (data_account (sampleRequest [1, 2]))
       (Object_keys SUBSTRATE_NETWORK_LIST) = Inr None \<and>
   prehash (projr (setParsedData sampleEnv [1, 2] emptyStore False
                     (DEFAULT_STATE\<lparr>prehash := Some (GenericExtrinsicPayload [9])\<rparr>)))
     = Some (GenericExtrinsicPayload [1, 2])"
proof -
  have parsed: "constructDataFromBytes sampleEnv [1, 2] False = Inr (SignRequest (sampleRequest [1, 2]))"
    by (simp add: sampleEnv_def)
  have pre: "preHash (sampleRequest [1, 2]) = Some (GenericExtrinsicPayload [1, 2])"
    by (simp add: sampleRequest_def)
  have exact: "getAccountByAddress kusamaStore (data_account (sampleRequest [1, 2]))
     = Some (sampleAccount\<lparr>address := ''addr-2'', networkKey := KUSAMA\<rparr>)"
    by (simp add: kusamaStore_def sampleRequest_def)
  have miss: "getAccountByAddress sampleStore (data_account (sampleRequest [1, 2])) = None"
    by (simp add: sampleStore_def sampleRequest_def)
  have miss': "getAccountByAddress emptyStore (data_account (sampleRequest [1, 2])) = None"
    by (simp add: emptyStore_def)
  have loop: "networksLoop sampleEnv sampleStore (data_account (sampleRequest [1, 2]))
       (Object_keys SUBSTRATE_NETWORK_LIST) = Inr (Some sampleAccount)"
    by code_simp
  have loop': "networksLoop sampleEnv emptyStore (data_account (sampleRequest [1, 2]))
       (Object_keys SUBSTRATE_NETWORK_LIST) = Inr None"
    by code_simp
  note t = prehash_set_on_two_paths [OF parsed]
  have a: "setParsedData sampleEnv [1, 2] kusamaStore False DEFAULT_STATE =
     Inr (DEFAULT_STATE\<lparr>unsignedData := Some (SignRequest (sampleRequest [1, 2])),
            prehash := Some (GenericExtrinsicPayload [1, 2])\<rparr>)"
    using t [of kusamaStore _ DEFAULT_STATE, THEN conjunct1] exact pre by simp
  have b: "setParsedData sampleEnv [1, 2] sampleStore False
       (DEFAULT_STATE\<lparr>prehash := Some (GenericExtrinsicPayload [9])\<rparr>) =
     Inr (DEFAULT_STATE\<lparr>prehash := Some (GenericExtrinsicPayload [9]),
            unsignedData :=
              Some (SignRequest ((sampleRequest [1, 2])\<lparr>data_account := ''addr-42''\<rparr>))\<rparr>)"
    using t [of sampleStore _ "DEFAULT_STATE\<lparr>prehash := Some (GenericExtrinsicPayload [9])\<rparr>"
        sampleAccount, THEN conjunct2, THEN conjunct1] miss loop
    by (simp add: sampleAccount_def)
  have c: "prehash (projr (setParsedData sampleEnv [1, 2] emptyStore False
                     (DEFAULT_STATE\<lparr>prehash := Some (GenericExtrinsicPayload [9])\<rparr>)))
     = Some (GenericExtrinsicPayload [1, 2])"
    using t [of emptyStore _ "DEFAULT_STATE\<lparr>prehash := Some (GenericExtrinsicPayload [9])\<rparr>",
        THEN conjunct2, THEN conjunct2, THEN conjunct1] miss' loop' pre
    by simp
  show ?thesis
    using parsed pre exact a miss loop b miss' loop' c by blast
qed


section \<open>Hexadecimal encoding\<close>

text \<open>Decoding the hexadecimal text of a byte array gives the array back.\<close>

lemma hexDigitValue_hexDigit: "n < 16 \<Longrightarrow> hexDigitValue (hexDigit n) = Some n"
  by (auto simp: hexDigitValue_def hexDigit_def Let_def)

lemma unat_div_16: "unat (b :: u8) div 16 < 16"
proof -
  have "unat b < 256"
    using unsigned_less [of b] by simp
  then show ?thesis by simp
qed

lemma hexPairs_u8aToHexBare: "hexPairs (u8aToHexBare bytes) = Inr bytes"
  by (induction bytes)
     (simp_all add: u8aToHexBare_def hexDigitValue_hexDigit unat_div_16)

lemma hexToU8a_u8aToHexBare: "hexToU8a (''0x'' @ u8aToHexBare bytes) = Inr bytes"
  by (simp add: hexToU8a_def hexPairs_u8aToHexBare)

lemma u8aToHexBare_digits: "\<forall>c \<in> set (u8aToHexBare bytes). hexDigitValue c \<noteq> None"
  by (induction bytes) (auto simp: u8aToHexBare_def hexDigitValue_hexDigit unat_div_16)

lemma hexStripPrefix_u8aToHex: "hexStripPrefix (u8aToHex bytes) = Inr (u8aToHexBare bytes)"
  using u8aToHexBare_digits [of bytes] by (simp add: hexStripPrefix_def u8aToHex_def)

lemma of_char_div_16: "(of_char c :: nat) div 16 < 16"
proof -
  have "(of_char c :: nat) < 16 * 16"
    using nat_of_char_less_256 [of c] by simp
  then show ?thesis
    by (rule less_mult_imp_div_less)
qed

lemma asciiToHex_digits: "\<forall>c \<in> set (asciiToHex msg). hexDigitValue c \<noteq> None"
  by (induction msg) (auto simp: asciiToHex_def hexDigitValue_hexDigit of_char_div_16)

lemma hexStripPrefix_digits:
  assumes "\<forall>c \<in> set v. hexDigitValue c \<noteq> None"
  shows "hexStripPrefix v = Inr v"
proof (cases "take 2 v = ''0x''")
  case True
  then have "CHR ''x'' \<in> set v"
    by (cases v rule: list.exhaust; cases "tl v") auto
  moreover have "hexDigitValue CHR ''x'' = None"
    by (simp add: hexDigitValue_def)
  ultimately show ?thesis using assms by blast
next
  case False
  then show ?thesis using assms by (simp add: hexStripPrefix_def)
qed

lemma char_of_48_49: "char_of (48 :: nat) = CHR ''0''" "char_of (49 :: nat) = CHR ''1''"
  by code_simp+

lemma hexDigit_0_1: "hexDigit 0 = CHR ''0''" "hexDigit (Suc 0) = CHR ''1''"
  using char_of_48_49 by (simp_all add: hexDigit_def)

lemma u8aToHexBare_tag: "u8aToHexBare (SIG_TYPE_SR25519 @ raw) = ''01'' @ u8aToHexBare raw"
  by (simp add: u8aToHexBare_def SIG_TYPE_SR25519_def hexDigit_0_1)


section \<open>Signing\<close>

text \<open>A signing method either leaves the state as it is or reports success.\<close>

lemma signDataBiometric_state:
  "fst (snd (signDataBiometric env legacy s w)) = s \<or> fst (signDataBiometric env legacy s w) = Inr None"
proof (cases "senderIsEthereum s")
  case (Inl e)
  then show ?thesis by (simp add: signDataBiometric_def)
next
  case (Inr p)
  obtain acc isEthereum where p: "p = (acc, isEthereum)" by (cases p)
  show ?thesis
  proof (cases "if isEthereum then Inr (Some (dataToSign s))
                else substrateSignable (dataToSign s) (isHash s)")
    case (Inl e)
    then show ?thesis using Inr p by (simp add: signDataBiometric_def)
  next
    case sg: (Inr signable)
    obtain res w' where call:
      "(if isEthereum
        then secureEthkeySign env (APP_ID env) (pinKey acc) signable (encryptedSeed acc) w
        else secureSubstrateSign env (APP_ID env) (pinKey acc) signable (encryptedSeed acc) legacy w)
       = (res, w')"
      by (cases "if isEthereum
        then secureEthkeySign env (APP_ID env) (pinKey acc) signable (encryptedSeed acc) w
        else secureSubstrateSign env (APP_ID env) (pinKey acc) signable (encryptedSeed acc) legacy w")
    show ?thesis
    proof (cases res)
      case (Inl e)
      then show ?thesis using Inr p sg call by (simp add: signDataBiometric_def)
    next
      case sig: (Inr sigHex)
      show ?thesis
      proof (cases "if \<not> isEthereum then tagSignature sigHex else Inr sigHex")
        case (Inl e)
        then show ?thesis using Inr p sg call sig by (simp add: signDataBiometric_def)
      next
        case (Inr signedData')
        then show ?thesis using \<open>senderIsEthereum s = Inr p\<close> p sg call sig
          by (simp add: signDataBiometric_def)
      qed
    qed
  qed
qed

lemma signDataWithSuri_state:
  "fst (snd (signDataWithSuri env suri s w)) = s \<or> fst (signDataWithSuri env suri s w) = Inr ()"
proof (cases "senderIsEthereum s")
  case (Inl e)
  then show ?thesis by (simp add: signDataWithSuri_def)
next
  case (Inr p)
  obtain acc isEthereum where p: "p = (acc, isEthereum)" by (cases p)
  show ?thesis
  proof (cases isEthereum)
    case True
    obtain res w' where call: "brainWalletSign env suri (dataToSign s) w = (res, w')"
      by (cases "brainWalletSign env suri (dataToSign s) w")
    show ?thesis
      using Inr p True call by (cases res) (simp_all add: signDataWithSuri_def)
  next
    case False
    show ?thesis
    proof (cases "substrateSignable (dataToSign s) (isHash s)")
      case (Inl e)
      then show ?thesis using Inr p False by (simp add: signDataWithSuri_def)
    next
      case sg: (Inr signable)
      obtain res w' where call: "substrateSign env suri signable w = (res, w')"
        by (cases "substrateSign env suri signable w")
      show ?thesis
      proof (cases res)
        case (Inl e)
        then show ?thesis using Inr p False sg call by (simp add: signDataWithSuri_def)
      next
        case sig: (Inr sigHex)
        show ?thesis
          using Inr p False sg call sig
          by (cases "tagSignature sigHex") (simp_all add: signDataWithSuri_def)
      qed
    qed
  qed
qed

text \<open>The same holds for the methods that sign through \<^verbatim>\<open>signDataWithSuri\<close>.\<close>

lemma signDataLegacy_state:
  "fst (snd (signDataLegacy env pin s w)) = s \<or> fst (signDataLegacy env pin s w) = Inr ()"
proof (cases "sender s")
  case None
  then show ?thesis by (simp add: signDataLegacy_def)
next
  case (Some acc)
  obtain res w' where call: "decryptData env (encryptedSeed acc) pin w = (res, w')"
    by (cases "decryptData env (encryptedSeed acc) pin w")
  show ?thesis
  proof (cases res)
    case (Inl e)
    then show ?thesis using Some call by (simp add: signDataLegacy_def)
  next
    case (Inr suri)
    then show ?thesis
      using Some call signDataWithSuri_state [of env suri s w']
      by (simp add: signDataLegacy_def)
  qed
qed

lemma signDataWithSeed_state:
  "fst (snd (signDataWithSeed env seed proto s w)) = s \<or>
   fst (signDataWithSeed env seed proto s w) = Inr ()"
proof (cases "proto = SUBSTRATE")
  case False
  then show ?thesis
    using signDataWithSuri_state [of env seed s w] by (simp add: signDataWithSeed_def)
next
  case True
  show ?thesis
  proof (cases "sender s")
    case None
    then show ?thesis using True by (simp add: signDataWithSeed_def)
  next
    case (Some acc)
    show ?thesis
    proof (cases "constructSURI env (path acc) [] seed")
      case (Inl e)
      then show ?thesis using True Some by (simp add: signDataWithSeed_def)
    next
      case (Inr suri)
      then show ?thesis
        using True Some signDataWithSuri_state [of env suri s w]
        by (simp add: signDataWithSeed_def)
    qed
  qed
qed

text \<open>
  Claim C7. When the signing capability rejects the request, \<^verbatim>\<open>signDataBiometric\<close>
  returns \<^verbatim>\<open>false\<close> and \<^verbatim>\<open>signDataWithSuri\<close> is rejected with the capability's error; the
  state of the store is the one before the call, so \<^verbatim>\<open>signedData\<close> is not written and
  \<^verbatim>\<open>busy\<close> keeps its value; the world is the one the single invocation has left, so the
  capability is not invoked a second time. More generally, every outcome of either method
  that is not a success leaves the state unchanged.
\<close>

theorem backend_failure_keeps_state:
  "(senderIsEthereum s = Inr (acc, True) \<and>
    secureEthkeySign env (APP_ID env) (pinKey acc) (Some (dataToSign s)) (encryptedSeed acc) w
      = (Inl e, w') \<longrightarrow>
      signDataBiometric env legacy s w = (Inr (Some False), s, w')) \<and>
   (senderIsEthereum s = Inr (acc, False) \<and>
    substrateSignable (dataToSign s) (isHash s) = Inr signable \<and>
    secureSubstrateSign env (APP_ID env) (pinKey acc) signable (encryptedSeed acc) legacy w
      = (Inl e, w') \<longrightarrow>
      signDataBiometric env legacy s w = (Inr (Some False), s, w')) \<and>
   (senderIsEthereum s = Inr (acc, True) \<and>
    brainWalletSign env suri (dataToSign s) w = (Inl e, w') \<longrightarrow>
      signDataWithSuri env suri s w = (Inl e, s, w')) \<and>
   (senderIsEthereum s = Inr (acc, False) \<and>
    substrateSignable (dataToSign s) (isHash s) = Inr signable \<and>
    substrateSign env suri signable w = (Inl e, w') \<longrightarrow>
      signDataWithSuri env suri s w = (Inl e, s, w')) \<and>
   (fst (signDataBiometric env legacy s w) \<noteq> Inr None \<longrightarrow>
      fst (snd (signDataBiometric env legacy s w)) = s) \<and>
   (fst (signDataWithSuri env suri s w) \<noteq> Inr () \<longrightarrow>
      fst (snd (signDataWithSuri env suri s w)) = s)"
proof (intro conjI)
  show "senderIsEthereum s = Inr (acc, True) \<and>
    secureEthkeySign env (APP_ID env) (pinKey acc) (Some (dataToSign s)) (encryptedSeed acc) w
      = (Inl e, w') \<longrightarrow>
      signDataBiometric env legacy s w = (Inr (Some False), s, w')"
    by (simp add: signDataBiometric_def)
  show "senderIsEthereum s = Inr (acc, False) \<and>
    substrateSignable (dataToSign s) (isHash s) = Inr signable \<and>
    secureSubstrateSign env (APP_ID env) (pinKey acc) signable (encryptedSeed acc) legacy w
      = (Inl e, w') \<longrightarrow>
      signDataBiometric env legacy s w = (Inr (Some False), s, w')"
    by (simp add: signDataBiometric_def)
  show "senderIsEthereum s = Inr (acc, True) \<and>
    brainWalletSign env suri (dataToSign s) w = (Inl e, w') \<longrightarrow>
      signDataWithSuri env suri s w = (Inl e, s, w')"
    by (simp add: signDataWithSuri_def)
  show "senderIsEthereum s = Inr (acc, False) \<and>
    substrateSignable (dataToSign s) (isHash s) = Inr signable \<and>
    substrateSign env suri signable w = (Inl e, w') \<longrightarrow>
      signDataWithSuri env suri s w = (Inl e, s, w')"
    by (simp add: signDataWithSuri_def)
  show "fst (signDataBiometric env legacy s w) \<noteq> Inr None \<longrightarrow>
      fst (snd (signDataBiometric env legacy s w)) = s"
    using signDataBiometric_state [of env legacy s w] by blast
  show "fst (signDataWithSuri env suri s w) \<noteq> Inr () \<longrightarrow>
      fst (snd (signDataWithSuri env suri s w)) = s"
    using signDataWithSuri_state [of env suri s w] by blast
qed

lemma signingState_sender: "senderIsEthereum signingState = Inr (sampleAccount, False)"
  by code_simp

lemma signingState_signable:
  "substrateSignable (dataToSign signingState) (isHash signingState) = Inr (Some (Text ''68656c6c6f''))"
  by code_simp

text \<open>
  The sample signing state is busy and has no signed data; with the rejecting capability
  both methods report the failure, the state is unchanged and the capability has been
  invoked once.
\<close>

theorem backend_failure_keeps_state_witness:
  "busy signingState \<and> signedData signingState = [] \<and>
   senderIsEthereum signingState = Inr (sampleAccount, False) \<and>
   substrateSignable (dataToSign signingState) (isHash signingState)
     = Inr (Some (Text ''68656c6c6f'')) \<and>
   secureSubstrateSign rejectingEnv (APP_ID rejectingEnv) (pinKey sampleAccount)
       (Some (Text ''68656c6c6f'')) (encryptedSeed sampleAccount) False 0
     = (Inl (Error ''rejected''), 1) \<and>
   signDataBiometric rejectingEnv False signingState 0 = (Inr (Some False), signingState, 1) \<and>
   substrateSign rejectingEnv ''suri'' (Some (Text ''68656c6c6f'')) 0
     = (Inl (Error ''rejected''), 1) \<and>
   signDataWithSuri rejectingEnv ''suri'' signingState 0
     = (Inl (Error ''rejected''), signingState, 1)"
proof -
  have st: "busy signingState \<and> signedData signingState = []"
    by (simp add: signingState_def setBusy_def DEFAULT_STATE_def)
  have b1: "secureSubstrateSign rejectingEnv (APP_ID rejectingEnv) (pinKey sampleAccount)
       (Some (Text ''68656c6c6f'')) (encryptedSeed sampleAccount) False 0
     = (Inl (Error ''rejected''), 1)"
    by (simp add: rejectingEnv_def)
  have b2: "substrateSign rejectingEnv ''suri'' (Some (Text ''68656c6c6f'')) 0
     = (Inl (Error ''rejected''), 1)"
    by (simp add: rejectingEnv_def)
  note t = backend_failure_keeps_state [where s = signingState and acc = sampleAccount
      and env = rejectingEnv and signable = "Some (Text ''68656c6c6f'')" and legacy = False
      and suri = "''suri''" and w = 0 and w' = 1 and e = "Error ''rejected''"]
  have r1: "signDataBiometric rejectingEnv False signingState 0 = (Inr (Some False), signingState, 1)"
    using t [THEN conjunct2, THEN conjunct1] signingState_sender signingState_signable b1
    by blast
  have r2: "signDataWithSuri rejectingEnv ''suri'' signingState 0
     = (Inl (Error ''rejected''), signingState, 1)"
    using t [THEN conjunct2, THEN conjunct2, THEN conjunct2, THEN conjunct1]
      signingState_sender signingState_signable b2
    by blast
  show ?thesis
    using st signingState_sender signingState_signable b1 r1 b2 r2 by blast
qed


lemma tagSignature_Inr:
  "tagSignature sigHex = Inr tagged \<Longrightarrow>
   \<exists>raw. hexToU8a (''0x'' @ sigHex) = Inr raw \<and> tagged = u8aToHexBare ([1] @ raw)"
  by (auto simp: tagSignature_def SIG_TYPE_SR25519_def split: sum.splits)

text \<open>
  Every success of a signing method for a sender whose network is not Ethereum comes from
  a signature that the capability returned, and stores that signature tagged.
\<close>

lemma signing_success_tagged:
  "(senderIsEthereum s = Inr (acc, False) \<and>
    signDataBiometric env legacy s w = (Inr None, s', w') \<longrightarrow>
      (\<exists>signable sigHex raw.
         substrateSignable (dataToSign s) (isHash s) = Inr signable \<and>
         secureSubstrateSign env (APP_ID env) (pinKey acc) signable (encryptedSeed acc) legacy w
           = (Inr sigHex, w') \<and>
         hexToU8a (''0x'' @ sigHex) = Inr raw \<and>
         s' = s\<lparr>signedData := u8aToHexBare ([1] @ raw)\<rparr> \<and>
         signedData s' = ''01'' @ u8aToHexBare raw)) \<and>
   (senderIsEthereum s = Inr (acc, False) \<and>
    signDataWithSuri env suri s w = (Inr (), s', w') \<longrightarrow>
      (\<exists>signable sigHex raw.
         substrateSignable (dataToSign s) (isHash s) = Inr signable \<and>
         substrateSign env suri signable w = (Inr sigHex, w') \<and>
         hexToU8a (''0x'' @ sigHex) = Inr raw \<and>
         s' = s\<lparr>signedData := u8aToHexBare ([1] @ raw)\<rparr> \<and>
         signedData s' = ''01'' @ u8aToHexBare raw))"
proof (intro conjI impI)
  assume "senderIsEthereum s = Inr (acc, False) \<and>
    signDataBiometric env legacy s w = (Inr None, s', w')"
  then have a: "senderIsEthereum s = Inr (acc, False)"
      "signDataBiometric env legacy s w = (Inr None, s', w')"
    by simp_all
  show "\<exists>signable sigHex raw.
         substrateSignable (dataToSign s) (isHash s) = Inr signable \<and>
         secureSubstrateSign env (APP_ID env) (pinKey acc) signable (encryptedSeed acc) legacy w
           = (Inr sigHex, w') \<and>
         hexToU8a (''0x'' @ sigHex) = Inr raw \<and>
         s' = s\<lparr>signedData := u8aToHexBare ([1] @ raw)\<rparr> \<and>
         signedData s' = ''01'' @ u8aToHexBare raw"
  proof (cases "substrateSignable (dataToSign s) (isHash s)")
    case (Inl e)
    then show ?thesis using a by (simp add: signDataBiometric_def)
  next
    case sg: (Inr signable)
    obtain res w2 where call:
      "secureSubstrateSign env (APP_ID env) (pinKey acc) signable (encryptedSeed acc) legacy w
         = (res, w2)"
      by (cases "secureSubstrateSign env (APP_ID env) (pinKey acc) signable (encryptedSeed acc)
                   legacy w")
    show ?thesis
    proof (cases res)
      case (Inl e)
      then show ?thesis using a sg call by (simp add: signDataBiometric_def)
    next
      case sig: (Inr sigHex)
      show ?thesis
      proof (cases "tagSignature sigHex")
        case (Inl e)
        then show ?thesis using a sg call sig by (simp add: signDataBiometric_def)
      next
        case (Inr tagged)
        then obtain raw where raw: "hexToU8a (''0x'' @ sigHex) = Inr raw"
            "tagged = u8aToHexBare ([1] @ raw)"
          using tagSignature_Inr by blast
        have "s' = s\<lparr>signedData := tagged\<rparr>" "w2 = w'"
          using a sg call sig Inr by (simp_all add: signDataBiometric_def)
        then show ?thesis
          using sg call sig raw u8aToHexBare_tag [of raw]
          by (auto simp: SIG_TYPE_SR25519_def)
      qed
    qed
  qed
next
  assume "senderIsEthereum s = Inr (acc, False) \<and>
    signDataWithSuri env suri s w = (Inr (), s', w')"
  then have a: "senderIsEthereum s = Inr (acc, False)"
      "signDataWithSuri env suri s w = (Inr (), s', w')"
    by simp_all
  show "\<exists>signable sigHex raw.
         substrateSignable (dataToSign s) (isHash s) = Inr signable \<and>
         substrateSign env suri signable w = (Inr sigHex, w') \<and>
         hexToU8a (''0x'' @ sigHex) = Inr raw \<and>
         s' = s\<lparr>signedData := u8aToHexBare ([1] @ raw)\<rparr> \<and>
         signedData s' = ''01'' @ u8aToHexBare raw"
  proof (cases "substrateSignable (dataToSign s) (isHash s)")
    case (Inl e)
    then show ?thesis using a by (simp add: signDataWithSuri_def)
  next
    case sg: (Inr signable)
    obtain res w2 where call: "substrateSign env suri signable w = (res, w2)"
      by (cases "substrateSign env suri signable w")
    show ?thesis
    proof (cases res)
      case (Inl e)
      then show ?thesis using a sg call by (simp add: signDataWithSuri_def)
    next
      case sig: (Inr sigHex)
      show ?thesis
      proof (cases "tagSignature sigHex")
        case (Inl e)
        then show ?thesis using a sg call sig by (simp add: signDataWithSuri_def)
      next
        case (Inr tagged)
        then obtain raw where raw: "hexToU8a (''0x'' @ sigHex) = Inr raw"
            "tagged = u8aToHexBare ([1] @ raw)"
          using tagSignature_Inr by blast
        have "s' = s\<lparr>signedData := tagged\<rparr>" "w2 = w'"
          using a sg call sig Inr by (simp_all add: signDataWithSuri_def)
        then show ?thesis
          using sg call sig raw u8aToHexBare_tag [of raw]
          by (auto simp: SIG_TYPE_SR25519_def)
      qed
    qed
  qed
qed

text \<open>
  Claim C8. For a sender whose network is not Ethereum, when the signing capability
  returns the hexadecimal text of a signature, \<^verbatim>\<open>signDataBiometric\<close> and
  \<^verbatim>\<open>signDataWithSuri\<close> succeed and store as \<^verbatim>\<open>signedData\<close> the hexadecimal text,
  without prefix, of the byte 1 (the tag of sr25519) followed by the bytes of that
  signature: \<^verbatim>\<open>01\<close> followed by the digits of the signature. The tag does not depend
  on the sender. Conversely, every success of either method for such a sender has stored
  a signature of the capability tagged in this way.
\<close>

theorem substrate_signature_tagged:
  "(senderIsEthereum s = Inr (acc, False) \<and>
    substrateSignable (dataToSign s) (isHash s) = Inr signable \<and>
    secureSubstrateSign env (APP_ID env) (pinKey acc) signable (encryptedSeed acc) legacy w
      = (Inr sigHex, w') \<and>
    hexToU8a (''0x'' @ sigHex) = Inr raw \<longrightarrow>
      signDataBiometric env legacy s w
        = (Inr None, s\<lparr>signedData := u8aToHexBare ([1] @ raw)\<rparr>, w')) \<and>
   (senderIsEthereum s = Inr (acc, False) \<and>
    substrateSignable (dataToSign s) (isHash s) = Inr signable \<and>
    substrateSign env suri signable w = (Inr sigHex, w') \<and>
    hexToU8a (''0x'' @ sigHex) = Inr raw \<longrightarrow>
      signDataWithSuri env suri s w
        = (Inr (), s\<lparr>signedData := u8aToHexBare ([1] @ raw)\<rparr>, w')) \<and>
   u8aToHexBare ([1] @ raw) = ''01'' @ u8aToHexBare raw \<and>
   hexToU8a (''0x'' @ u8aToHexBare raw) = Inr raw \<and>
   (senderIsEthereum s = Inr (acc, False) \<and>
    signDataBiometric env legacy s w = (Inr None, t, v) \<longrightarrow>
      (\<exists>signable' sigHex' raw'.
         secureSubstrateSign env (APP_ID env) (pinKey acc) signable' (encryptedSeed acc) legacy w
           = (Inr sigHex', v) \<and>
         hexToU8a (''0x'' @ sigHex') = Inr raw' \<and>
         t = s\<lparr>signedData := u8aToHexBare ([1] @ raw')\<rparr>)) \<and>
   (senderIsEthereum s = Inr (acc, False) \<and>
    signDataWithSuri env suri s w = (Inr (), t, v) \<longrightarrow>
      (\<exists>signable' sigHex' raw'.
         substrateSign env suri signable' w = (Inr sigHex', v) \<and>
         hexToU8a (''0x'' @ sigHex') = Inr raw' \<and>
         t = s\<lparr>signedData := u8aToHexBare ([1] @ raw')\<rparr>))"
proof (intro conjI)
  show "senderIsEthereum s = Inr (acc, False) \<and>
    substrateSignable (dataToSign s) (isHash s) = Inr signable \<and>
    secureSubstrateSign env (APP_ID env) (pinKey acc) signable (encryptedSeed acc) legacy w
      = (Inr sigHex, w') \<and>
    hexToU8a (''0x'' @ sigHex) = Inr raw \<longrightarrow>
      signDataBiometric env legacy s w
        = (Inr None, s\<lparr>signedData := u8aToHexBare ([1] @ raw)\<rparr>, w')"
    by (simp add: signDataBiometric_def tagSignature_def SIG_TYPE_SR25519_def)
  show "senderIsEthereum s = Inr (acc, False) \<and>
    substrateSignable (dataToSign s) (isHash s) = Inr signable \<and>
    substrateSign env suri signable w = (Inr sigHex, w') \<and>
    hexToU8a (''0x'' @ sigHex) = Inr raw \<longrightarrow>
      signDataWithSuri env suri s w
        = (Inr (), s\<lparr>signedData := u8aToHexBare ([1] @ raw)\<rparr>, w')"
    by (simp add: signDataWithSuri_def tagSignature_def SIG_TYPE_SR25519_def)
  show "u8aToHexBare ([1] @ raw) = ''01'' @ u8aToHexBare raw"
    using u8aToHexBare_tag [of raw] by (simp add: SIG_TYPE_SR25519_def)
  show "hexToU8a (''0x'' @ u8aToHexBare raw) = Inr raw"
    by (rule hexToU8a_u8aToHexBare)
  show "senderIsEthereum s = Inr (acc, False) \<and>
    signDataBiometric env legacy s w = (Inr None, t, v) \<longrightarrow>
      (\<exists>signable' sigHex' raw'.
         secureSubstrateSign env (APP_ID env) (pinKey acc) signable' (encryptedSeed acc) legacy w
           = (Inr sigHex', v) \<and>
         hexToU8a (''0x'' @ sigHex') = Inr raw' \<and>
         t = s\<lparr>signedData := u8aToHexBare ([1] @ raw')\<rparr>)"
    using signing_success_tagged [of s acc env legacy w t v, THEN conjunct1] by blast
  show "senderIsEthereum s = Inr (acc, False) \<and>
    signDataWithSuri env suri s w = (Inr (), t, v) \<longrightarrow>
      (\<exists>signable' sigHex' raw'.
         substrateSign env suri signable' w = (Inr sigHex', v) \<and>
         hexToU8a (''0x'' @ sigHex') = Inr raw' \<and>
         t = s\<lparr>signedData := u8aToHexBare ([1] @ raw')\<rparr>)"
    using signing_success_tagged [where s = s and acc = acc and env = env and suri = suri
        and w = w and s' = t and w' = v, THEN conjunct2] by blast
qed

text \<open>
  The accepting capability returns \<^verbatim>\<open>abcd\<close> to both methods, the text of the bytes
  \<open>AB CD\<close>: each method succeeds and the signed data are \<^verbatim>\<open>01abcd\<close>.
\<close>

theorem substrate_signature_tagged_witness:
  "senderIsEthereum signingState = Inr (sampleAccount, False) \<and>
   substrateSignable (dataToSign signingState) (isHash signingState)
     = Inr (Some (Text ''68656c6c6f'')) \<and>
   hexToU8a ''0xabcd'' = Inr [0xAB, 0xCD] \<and>
   secureSubstrateSign acceptingEnv (APP_ID acceptingEnv) (pinKey sampleAccount)
       (Some (Text ''68656c6c6f'')) (encryptedSeed sampleAccount) False 0 = (Inr ''abcd'', 1) \<and>
   signDataBiometric acceptingEnv False signingState 0
     = (Inr None, signingState\<lparr>signedData := ''01abcd''\<rparr>, 1) \<and>
   substrateSign acceptingEnv ''suri'' (Some (Text ''68656c6c6f'')) 0 = (Inr ''abcd'', 1) \<and>
   signDataWithSuri acceptingEnv ''suri'' signingState 0
     = (Inr (), signingState\<lparr>signedData := ''01abcd''\<rparr>, 1)"
proof -
  have dec: "hexToU8a ''0xabcd'' = Inr [0xAB, 0xCD]"
    by code_simp
  then have dec': "hexToU8a (''0x'' @ ''abcd'') = Inr [0xAB, 0xCD]"
    by simp
  have enc: "u8aToHexBare ([1] @ [0xAB, 0xCD]) = ''01abcd''"
    by code_simp
  have bio: "secureSubstrateSign acceptingEnv (APP_ID acceptingEnv) (pinKey sampleAccount)
       (Some (Text ''68656c6c6f'')) (encryptedSeed sampleAccount) False 0 = (Inr ''abcd'', 1)"
    by (simp add: acceptingEnv_def)
  have suri: "substrateSign acceptingEnv ''suri'' (Some (Text ''68656c6c6f'')) 0 = (Inr ''abcd'', 1)"
    by (simp add: acceptingEnv_def)
  note t = substrate_signature_tagged [where s = signingState and acc = sampleAccount
      and env = acceptingEnv and signable = "Some (Text ''68656c6c6f'')" and legacy = False
      and suri = "''suri''" and w = 0 and w' = 1 and sigHex = "''abcd''" and raw = "[0xAB, 0xCD]"]
  have r1: "signDataBiometric acceptingEnv False signingState 0
     = (Inr None, signingState\<lparr>signedData := ''01abcd''\<rparr>, 1)"
    using t [THEN conjunct1] signingState_sender signingState_signable bio dec'
    unfolding enc by blast
  have r2: "signDataWithSuri acceptingEnv ''suri'' signingState 0
     = (Inr (), signingState\<lparr>signedData := ''01abcd''\<rparr>, 1)"
    using t [THEN conjunct2, THEN conjunct1] signingState_sender signingState_signable suri dec'
    unfolding enc by blast
  show ?thesis
    using signingState_sender signingState_signable dec bio r1 suri r2 by blast
qed

text \<open>
  Claim C6, as the code has it. For a network that is not Ethereum the tests on
  \<^verbatim>\<open>dataToSign\<close> are tried in a fixed order and the first that holds decides: a
  structured payload is encoded without its length prefix and written in hexadecimal;
  otherwise data flagged as a hash go through \<^verbatim>\<open>hexStripPrefix\<close> (hexadecimal text is
  used as it is); otherwise a byte array is written in hexadecimal; otherwise ASCII text
  is written in hexadecimal, byte by byte. When no test holds (text that is not ASCII and
  not flagged as a hash), nothing is thrown: \<^verbatim>\<open>signable\<close> stays \<^verbatim>\<open>undefined\<close> and the
  signing capability is invoked with it.
\<close>

theorem signable_first_matching_branch:
  "substrateSignable (Payload p) h = Inr (Some (Text (u8aToHexBare (toU8a_bare p)))) \<and>
   substrateSignable (U8a bytes) True = map_sum id Some (hexStripPrefixValue (U8a bytes)) \<and>
   substrateSignable (Text msg) True = map_sum id Some (hexStripPrefixValue (Text msg)) \<and>
   (msg \<noteq> [] \<and> (\<forall>c \<in> set msg. hexDigitValue c \<noteq> None) \<longrightarrow>
      substrateSignable (Text msg) True = Inr (Some (Text msg))) \<and>
   substrateSignable (U8a bytes) False = Inr (Some (Text (u8aToHexBare bytes))) \<and>
   (isAscii msg \<longrightarrow> substrateSignable (Text msg) False = Inr (Some (Text (asciiToHex msg)))) \<and>
   (\<not> isAscii msg \<longrightarrow> substrateSignable (Text msg) False = Inr None) \<and>
   (senderIsEthereum s = Inr (acc, False) \<and> dataToSign s = Text msg \<and> \<not> isAscii msg \<and>
    \<not> isHash s \<longrightarrow>
      signDataWithSuri env suri s w =
        (case substrateSign env suri None w of
           (Inl e, w') \<Rightarrow> (Inl e, s, w')
         | (Inr sigHex, w') \<Rightarrow>
             (case tagSignature sigHex of
                Inl e \<Rightarrow> (Inl e, s, w')
              | Inr tagged \<Rightarrow> (Inr (), s\<lparr>signedData := tagged\<rparr>, w'))) \<and>
      signDataBiometric env legacy s w =
        (case secureSubstrateSign env (APP_ID env) (pinKey acc) None (encryptedSeed acc) legacy w of
           (Inl e, w') \<Rightarrow> (Inr (Some False), s, w')
         | (Inr sigHex, w') \<Rightarrow>
             (case tagSignature sigHex of
                Inl e \<Rightarrow> (Inr (Some False), s, w')
              | Inr tagged \<Rightarrow> (Inr None, s\<lparr>signedData := tagged\<rparr>, w'))))"
proof (intro conjI impI)
  show "substrateSignable (Payload p) h = Inr (Some (Text (u8aToHexBare (toU8a_bare p))))"
    by (simp add: substrateSignable_def)
  show "substrateSignable (U8a bytes) True = map_sum id Some (hexStripPrefixValue (U8a bytes))"
    by (simp add: substrateSignable_def)
  show "substrateSignable (Text msg) True = map_sum id Some (hexStripPrefixValue (Text msg))"
    by (simp add: substrateSignable_def)
  show "substrateSignable (U8a bytes) False = Inr (Some (Text (u8aToHexBare bytes)))"
    by (simp add: substrateSignable_def hexStripPrefix_u8aToHex)
next
  assume "msg \<noteq> [] \<and> (\<forall>c \<in> set msg. hexDigitValue c \<noteq> None)"
  then show "substrateSignable (Text msg) True = Inr (Some (Text msg))"
    by (simp add: substrateSignable_def hexStripPrefix_digits)
next
  assume "isAscii msg"
  then show "substrateSignable (Text msg) False = Inr (Some (Text (asciiToHex msg)))"
    by (simp add: substrateSignable_def hexStripPrefix_digits asciiToHex_digits)
next
  assume "\<not> isAscii msg"
  then show "substrateSignable (Text msg) False = Inr None"
    by (simp add: substrateSignable_def)
next
  assume "senderIsEthereum s = Inr (acc, False) \<and> dataToSign s = Text msg \<and> \<not> isAscii msg \<and>
    \<not> isHash s"
  then have a: "senderIsEthereum s = Inr (acc, False)"
      "substrateSignable (dataToSign s) (isHash s) = Inr None"
    by (simp_all add: substrateSignable_def)
  show "signDataWithSuri env suri s w =
        (case substrateSign env suri None w of
           (Inl e, w') \<Rightarrow> (Inl e, s, w')
         | (Inr sigHex, w') \<Rightarrow>
             (case tagSignature sigHex of
                Inl e \<Rightarrow> (Inl e, s, w')
              | Inr tagged \<Rightarrow> (Inr (), s\<lparr>signedData := tagged\<rparr>, w')))"
    using a by (simp add: signDataWithSuri_def split: prod.splits sum.splits)
  show "signDataBiometric env legacy s w =
        (case secureSubstrateSign env (APP_ID env) (pinKey acc) None (encryptedSeed acc) legacy w of
           (Inl e, w') \<Rightarrow> (Inr (Some False), s, w')
         | (Inr sigHex, w') \<Rightarrow>
             (case tagSignature sigHex of
                Inl e \<Rightarrow> (Inr (Some False), s, w')
              | Inr tagged \<Rightarrow> (Inr None, s\<lparr>signedData := tagged\<rparr>, w')))"
    using a by (simp add: signDataBiometric_def split: prod.splits sum.splits)
qed

lemma nonAscii_sender:
  "senderIsEthereum (signingState\<lparr>dataToSign := Text [CHR 0xE9]\<rparr>) = Inr (sampleAccount, False)"
  by code_simp

text \<open>
  The text made of the one character \<^verbatim>\<open>0xE9\<close> passes no test; the accepting capability
  is invoked with \<^verbatim>\<open>undefined\<close> and its answer \<^verbatim>\<open>00\<close> is tagged and stored. The text
  \<^verbatim>\<open>hello\<close> is ASCII and is written in hexadecimal.
\<close>

theorem signable_first_matching_branch_witness:
  "senderIsEthereum (signingState\<lparr>dataToSign := Text [CHR 0xE9]\<rparr>) = Inr (sampleAccount, False) \<and>
   \<not> isAscii [CHR 0xE9] \<and>
   \<not> isHash (signingState\<lparr>dataToSign := Text [CHR 0xE9]\<rparr>) \<and>
   substrateSignable (Text [CHR 0xE9]) False = Inr None \<and>
   substrateSign acceptingEnv ''suri'' None 0 = (Inr ''00'', 1) \<and>
   signDataWithSuri acceptingEnv ''suri'' (signingState\<lparr>dataToSign := Text [CHR 0xE9]\<rparr>) 0 =
     (Inr (), signingState\<lparr>dataToSign := Text [CHR 0xE9], signedData := ''0100''\<rparr>, 1) \<and>
   isAscii ''hello'' \<and>
   substrateSignable (Text ''hello'') False = Inr (Some (Text ''68656c6c6f''))"
proof -
  have na: "\<not> isAscii [CHR 0xE9]"
    by (simp add: isAscii_def)
  have nh: "\<not> isHash (signingState\<lparr>dataToSign := Text [CHR 0xE9]\<rparr>)"
    by (simp add: signingState_def setBusy_def DEFAULT_STATE_def)
  have d: "dataToSign (signingState\<lparr>dataToSign := Text [CHR 0xE9]\<rparr>) = Text [CHR 0xE9]"
    by simp
  have call: "substrateSign acceptingEnv ''suri'' None 0 = (Inr ''00'', 1)"
    by (simp add: acceptingEnv_def)
  have tag: "tagSignature ''00'' = Inr ''0100''"
    by code_simp
  note t = signable_first_matching_branch [where msg = "[CHR 0xE9]" and acc = sampleAccount
      and s = "signingState\<lparr>dataToSign := Text [CHR 0xE9]\<rparr>" and env = acceptingEnv
      and suri = "''suri''" and w = 0]
  have none: "substrateSignable (Text [CHR 0xE9]) False = Inr None"
    using t na by blast
  have "signDataWithSuri acceptingEnv ''suri'' (signingState\<lparr>dataToSign := Text [CHR 0xE9]\<rparr>) 0 =
        (case substrateSign acceptingEnv ''suri'' None 0 of
           (Inl e, w') \<Rightarrow> (Inl e, signingState\<lparr>dataToSign := Text [CHR 0xE9]\<rparr>, w')
         | (Inr sigHex, w') \<Rightarrow>
             (case tagSignature sigHex of
                Inl e \<Rightarrow> (Inl e, signingState\<lparr>dataToSign := Text [CHR 0xE9]\<rparr>, w')
              | Inr tagged \<Rightarrow>
                  (Inr (), signingState\<lparr>dataToSign := Text [CHR 0xE9], signedData := tagged\<rparr>, w')))"
    using t nonAscii_sender d na nh by blast
  then have run: "signDataWithSuri acceptingEnv ''suri''
        (signingState\<lparr>dataToSign := Text [CHR 0xE9]\<rparr>) 0 =
     (Inr (), signingState\<lparr>dataToSign := Text [CHR 0xE9], signedData := ''0100''\<rparr>, 1)"
    by (simp add: call tag)
  have asc: "isAscii ''hello''"
    by (simp add: isAscii_def)
  have "asciiToHex ''hello'' = ''68656c6c6f''"
    by code_simp
  then have hello: "substrateSignable (Text ''hello'') False = Inr (Some (Text ''68656c6c6f''))"
    using signable_first_matching_branch [where msg = "''hello''"] asc by simp
  show ?thesis
    using nonAscii_sender na nh none call run asc hello by blast
qed

text \<open>
  Claim C6 as stated fails: for data that pass none of the four tests no error is raised.
  Both signing methods complete and store a signature.
\<close>

theorem unsignable_data_is_signed:
  "substrateSignable (Text [CHR 0xE9]) False = Inr None \<and>
   signDataWithSuri acceptingEnv ''suri'' (signingState\<lparr>dataToSign := Text [CHR 0xE9]\<rparr>) 0 =
     (Inr (), signingState\<lparr>dataToSign := Text [CHR 0xE9], signedData := ''0100''\<rparr>, 1) \<and>
   signDataBiometric acceptingEnv False (signingState\<lparr>dataToSign := Text [CHR 0xE9]\<rparr>) 0 =
     (Inr None, signingState\<lparr>dataToSign := Text [CHR 0xE9], signedData := ''0100''\<rparr>, 1)"
  by code_simp


end
